theory Spec2Isabelle
  imports Complex_Main
begin

section \<open>Strings and numbers of the client\<close>

text \<open>
  JavaScript strings are modelled as \<open>string\<close> (a list of bytes, UTF-8 for the few
  non-ASCII glyphs the client prints). Numbers that the client only prints or compares
  with zero (test numbers, millisecond readings, task counters) are modelled as \<open>int\<close>;
  numbers it divides (scores) as \<open>rat\<close>.
\<close>

definition NL :: string where
  "NL = [CHR 0x0A]"

definition ESC :: string where
  "ESC = [CHR 0x1B]"

text \<open>U+2713 (check mark) and U+2717 (ballot x) in UTF-8.\<close>

definition CHECK_MARK :: string where
  "CHECK_MARK = [CHR 0xE2, CHR 0x9C, CHR 0x93]"

definition BALLOT_X :: string where
  "BALLOT_X = [CHR 0xE2, CHR 0x9C, CHR 0x97]"

text \<open>Decimal rendering of an integer-valued number, as a template literal does it.\<close>

function show_nat :: "nat \<Rightarrow> string" where
  "show_nat n =
     (if n < 10 then [''0123456789'' ! n]
      else show_nat (n div 10) @ [''0123456789'' ! (n mod 10)])"
  by pat_completeness auto
termination
  by (relation "measure id") auto

declare show_nat.simps [simp del]

definition show_int :: "int \<Rightarrow> string" where
  "show_int i = (if i < 0 then CHR ''-'' # show_nat (nat (- i)) else show_nat (nat i))"

text \<open>Truthiness of an optional string: \<open>undefined\<close> and the empty string are falsy.\<close>

fun truthy :: "string option \<Rightarrow> bool" where
  "truthy None = False"
| "truthy (Some s) = (s \<noteq> [])"

section \<open>Data model of \<open>lib/api-client.ts\<close>\<close>

datatype ProgrammingLanguage = Python | Javascript | Cpp

datatype TaskLanguage = Ru | En

text \<open>A thrown JavaScript \<open>Error\<close>, identified by its message.\<close>

datatype error = Error string

text \<open>
  Modelled from the spec: the test runner, which executes the test cases and builds the
  report, is not part of the web client. This is the \<open>TestCaseResult\<close> of the data
  model of the specification, one per test case, with the full detail that the test
  runner keeps internally.
\<close>

record TestCaseResult =
  test_id :: string
  passed :: bool
  input :: string
  expected_output :: string
  actual_output :: string
  error :: "string option"
  duration_ms :: int

datatype InterviewDirection = Frontend | Backend | Fullstack | Data_science | Devops

datatype Difficulty = Easy | Medium | Hard

datatype TaskType = Algorithm | System_design | Code_review | Debugging | Practical

record Example =
  input :: string
  output' :: string
  explanation :: "string option"

text \<open>
  The field \<open>id\<close> of a task is written \<open>id'\<close> (\<open>id\<close> is the identity function
  of HOL). \<open>starter_code\<close> is a \<open>Record<string, string>\<close>, a finite map.
\<close>

record Task =
  id' :: string
  title :: string
  description :: string
  task_type :: TaskType
  difficulty :: Difficulty
  examples :: "Example list"
  constraints :: "string list option"
  time_limit_minutes :: int
  starter_code :: "(string \<rightharpoonup> string) option"

datatype Role = User | Assistant

record ChatMessage =
  role :: Role
  content :: string

record InterviewState =
  interview_id :: string
  status :: string
  current_task :: int
  total_tasks :: int
  direction :: InterviewDirection
  language :: ProgrammingLanguage
  task_language :: TaskLanguage
  difficulty :: Difficulty
  started_at :: string

record CodeEvaluation =
  score :: rat
  feedback :: string
  strengths :: "string list"
  improvements :: "string list"
  code_quality :: rat
  efficiency :: rat
  correctness :: rat

record TestResult =
  test_number :: int
  passed :: bool
  input :: string
  expected :: string
  actual :: string
  error :: "string option"
  execution_time_ms :: int

text \<open>
  \<open>success\<close> is declared \<open>boolean\<close>; the terminal guards it with
  \<open>!== undefined\<close>, so the model admits its absence. A field \<open>output\<close> is
  written \<open>output'\<close> throughout (\<open>output\<close> is reserved in Isabelle).
\<close>

record ExecutionResult =
  success :: "bool option"
  output' :: "string option"
  error :: "string option"
  execution_time_ms :: int
  memory_used_mb :: rat
  test_results :: "TestResult list option"

section \<open>The terminal text of \<open>components/interview/test-terminal.tsx\<close>\<close>

text \<open>
  The body of the \<open>forEach\<close> over \<open>test_results\<close>: it takes the text built so far
  and returns it extended by what this test appends.
\<close>

definition TestTerminal_test :: "string \<Rightarrow> TestResult \<Rightarrow> string" where
  "TestTerminal_test terminalOutput test =
     (let t1 =
        (if passed test then
           terminalOutput @ ESC @ ''[32m'' @ CHECK_MARK @ '' Test '' @ show_int (test_number test)
             @ '': PASSED'' @ ESC @ ''[0m'' @ NL
         else
           (let f0 = terminalOutput @ ESC @ ''[31m'' @ BALLOT_X @ '' Test ''
                       @ show_int (test_number test) @ '': FAILED'' @ ESC @ ''[0m'' @ NL;
                f1 = (if input test \<noteq> [] then f0 @ ''  Input: '' @ input test @ NL else f0);
                f2 = (if expected test \<noteq> [] then f1 @ ''  Expected: '' @ expected test @ NL
                      else f1);
                f3 = (if actual test \<noteq> [] then f2 @ ''  Actual: '' @ actual test @ NL else f2);
                f4 = (if truthy (TestResult.error test)
                      then f3 @ ''  Error: '' @ the (TestResult.error test) @ NL else f3)
            in f4))
      in if TestResult.execution_time_ms test \<noteq> 0
         then t1 @ ''  Time: '' @ show_int (TestResult.execution_time_ms test) @ ''ms'' @ NL
         else t1)"

text \<open>
  The effect that computes the terminal text from the props \<open>executionResult\<close> and
  \<open>isRunning\<close>; the result is the value passed to \<open>setOutput\<close>.
\<close>

definition TestTerminal_output :: "ExecutionResult option \<Rightarrow> bool \<Rightarrow> string" where
  "TestTerminal_output executionResult isRunning =
     (case executionResult of
        Some r \<Rightarrow>
          (let o0 = [];
               o1 = (if truthy (ExecutionResult.error r)
                     then o0 @ ESC @ ''[31mError: '' @ the (ExecutionResult.error r) @ ESC @ ''[0m'' @ NL
                     else o0);
               o2 = (if truthy (output' r) then o1 @ the (output' r) else o1);
               o3 = (case test_results r of
                       None \<Rightarrow> o2
                     | Some ts \<Rightarrow>
                         if length ts > 0
                         then foldl TestTerminal_test (o2 @ NL @ NL @ ''=== Test Results ==='' @ NL) ts
                         else o2);
               o4 = (case success r of
                       None \<Rightarrow> o3
                     | Some ok \<Rightarrow>
                         o3 @ NL @ NL @ ESC @ ''['' @ (if ok then ''32'' else ''31'') @ ''mOverall: ''
                           @ (if ok then ''SUCCESS'' else ''FAILED'') @ ESC @ ''[0m'' @ NL)
           in o4)
      | None \<Rightarrow> if isRunning then ''Running tests...'' @ NL else [])"

section \<open>Languages and starter code (\<open>hooks/use-interview.ts\<close>)\<close>

text \<open>The string value of each member of the union type \<open>ProgrammingLanguage\<close>.\<close>

fun language_name :: "ProgrammingLanguage \<Rightarrow> string" where
  "language_name Python = ''python''"
| "language_name Javascript = ''javascript''"
| "language_name Cpp = ''cpp''"

text \<open>The Russian comment of the starter code, "write your solution here", in UTF-8.\<close>

definition WRITE_SOLUTION_HERE :: string where
  "WRITE_SOLUTION_HERE =
    [CHR 0xD0, CHR 0x9D, CHR 0xD0, CHR 0xB0, CHR 0xD0, CHR 0xBF, CHR 0xD0, CHR 0xB8,
     CHR 0xD1, CHR 0x88, CHR 0xD0, CHR 0xB8, CHR 0xD1, CHR 0x82, CHR 0xD0, CHR 0xB5,
     CHR 0x20, CHR 0xD0, CHR 0xB2, CHR 0xD0, CHR 0xB0, CHR 0xD1, CHR 0x88, CHR 0xD0,
     CHR 0xB5, CHR 0x20, CHR 0xD1, CHR 0x80, CHR 0xD0, CHR 0xB5, CHR 0xD1, CHR 0x88,
     CHR 0xD0, CHR 0xB5, CHR 0xD0, CHR 0xBD, CHR 0xD0, CHR 0xB8, CHR 0xD0, CHR 0xB5,
     CHR 0x20, CHR 0xD0, CHR 0xB7, CHR 0xD0, CHR 0xB4, CHR 0xD0, CHR 0xB5, CHR 0xD1,
     CHR 0x81, CHR 0xD1, CHR 0x8C]"

text \<open>
  \<open>getDefaultCode\<close> switches on the run-time string, with a \<open>default\<close> branch
  for any value outside the union type.
\<close>

definition getDefaultCode :: "string \<Rightarrow> string" where
  "getDefaultCode lang =
     (if lang = ''python'' then
        ''# '' @ WRITE_SOLUTION_HERE @ NL @ NL @ ''def solution():'' @ NL @ ''    pass'' @ NL
      else if lang = ''javascript'' then
        ''// '' @ WRITE_SOLUTION_HERE @ NL @ NL @ ''function solution() {'' @ NL @ ''  '' @ NL
          @ ''}'' @ NL
      else if lang = ''cpp'' then
        ''// '' @ WRITE_SOLUTION_HERE @ NL @ NL @ ''#include <iostream>'' @ NL
          @ ''using namespace std;'' @ NL @ NL @ ''int main() {'' @ NL @ ''    '' @ NL
          @ ''    return 0;'' @ NL @ ''}'' @ NL
      else [])"

text \<open>
  The other places of the client that branch on the language: the Monaco language id
  (\<open>languageMap\<close>), the documentation language (\<open>langMap\<close>) and the file
  extension shown above the editor (\<open>components/interview/progress-bar.tsx\<close>).
\<close>

fun languageMap :: "ProgrammingLanguage \<Rightarrow> string" where
  "languageMap Python = ''python''"
| "languageMap Javascript = ''javascript''"
| "languageMap Cpp = ''cpp''"

definition file_extension :: "string \<Rightarrow> string" where
  "file_extension lang =
     (if lang = ''python'' then ''py'' else if lang = ''javascript'' then ''js''
      else ''cpp'')"

text \<open>
  The classification of the spec (one interpreted, one JIT/VM-based, one compiled
  language), written beside the code's union type to be compared with it.
\<close>

datatype runner_kind = InterpretedRunner | VMRunner | CompiledRunner

fun spec_runner_kind :: "ProgrammingLanguage \<Rightarrow> runner_kind" where
  "spec_runner_kind Python = InterpretedRunner"
| "spec_runner_kind Javascript = VMRunner"
| "spec_runner_kind Cpp = CompiledRunner"

section \<open>The API client as the hook sees it\<close>

text \<open>The parameter object of \<open>apiClient.startInterview\<close>.\<close>

record start_data =
  candidate_name :: string
  candidate_email :: string
  direction :: InterviewDirection
  language :: ProgrammingLanguage
  difficulty :: Difficulty
  task_language :: TaskLanguage
  use_task_bank :: "bool option"

text \<open>
  The results of \<open>submitCode\<close>, \<open>getHint\<close> and \<open>finishInterview\<close>. The nested
  object \<open>anti_cheat: { is_suspicious }\<close> is one field here, and the \<open>assessment\<close>,
  of type \<open>unknown\<close> and never inspected by the client, is a string.
\<close>

record submit_result =
  task_id :: string
  execution_result :: "ExecutionResult option"
  evaluation :: CodeEvaluation
  anti_cheat_is_suspicious :: bool

record hint_result =
  hint :: string
  hint_number :: int
  hints_remaining :: int

record finish_result =
  interview_id :: string
  status :: string
  assessment :: string

datatype ChatContext = Softskills | Task_discussion

text \<open>
  The object \<open>apiClient\<close>, one field per method, named after the method with the
  suffix \<open>_api\<close> (the hook has operations of the same names). A method that returns a
  promise is a function into \<open>error + 'a\<close>: \<open>Inl\<close> is a rejected promise (a thrown
  error).
  The hook tests the values of \<open>generateTask\<close> and \<open>getHint\<close> for
  \<open>null\<close>, so these are optional. \<open>sendChatMessage\<close> calls \<open>onChunk\<close> for each
  chunk and may then throw; it is the list of chunks delivered and the error, if any.
\<close>

record apiClient =
  startInterview_api :: "start_data \<Rightarrow> error + InterviewState"
  generateTask_api :: "string \<Rightarrow> int \<Rightarrow> rat option \<Rightarrow> error + Task option"
  submitCode_api :: "string \<Rightarrow> string \<Rightarrow> string \<Rightarrow> ProgrammingLanguage \<Rightarrow> error + submit_result"
  runTests_api :: "string \<Rightarrow> string \<Rightarrow> string \<Rightarrow> ProgrammingLanguage \<Rightarrow> error + ExecutionResult"
  getHint_api :: "string \<Rightarrow> string \<Rightarrow> string \<Rightarrow> error + hint_result option"
  sendChatMessage_api ::
    "string \<Rightarrow> string \<Rightarrow> ChatContext \<Rightarrow> string option \<Rightarrow> string list \<times> error option"
  finishInterview_api :: "string \<Rightarrow> error + finish_result"

section \<open>The state of \<open>useInterview\<close>\<close>

datatype LoadingAction = Start | Submit | Tests | Hint | NextTask | Finish

text \<open>
  A call of \<open>console.log\<close> or \<open>console.error\<close>: its label and, for an error that
  was caught, the error. Objects printed for information only are left out.
\<close>

datatype log_entry = ConsoleLog string | ConsoleError string "error option"

text \<open>
  One field per \<open>useState\<close> cell of the hook, and the console it writes to.
  \<open>loadingAction\<close> is \<open>None\<close> for \<open>null\<close>.
\<close>

record hook_state =
  interview :: "InterviewState option"
  currentTask :: "Task option"
  taskNumber :: int
  code :: string
  chatMessages :: "ChatMessage list"
  isLoading :: bool
  hintsUsed :: int
  taskScores :: "rat list"
  loadingAction :: "LoadingAction option"
  chatLoading :: bool
  isChatStreaming :: bool
  console :: "log_entry list"

definition useInterview_init :: hook_state where
  "useInterview_init =
     \<lparr>interview = None, currentTask = None, taskNumber = 1, code = [], chatMessages = [],
      isLoading = False, hintsUsed = 0, taskScores = [], loadingAction = None,
      chatLoading = False, isChatStreaming = False, console = []\<rparr>"

definition console_log :: "string \<Rightarrow> hook_state \<Rightarrow> hook_state" where
  "console_log label s = s\<lparr>console := console s @ [ConsoleLog label]\<rparr>"

definition console_error :: "string \<Rightarrow> error option \<Rightarrow> hook_state \<Rightarrow> hook_state" where
  "console_error label e s = s\<lparr>console := console s @ [ConsoleError label e]\<rparr>"

text \<open>\<open>setIsLoading(true); setLoadingAction(a)\<close> at the start of an operation.\<close>

definition begin_loading :: "LoadingAction \<Rightarrow> hook_state \<Rightarrow> hook_state" where
  "begin_loading a s = s\<lparr>isLoading := True, loadingAction := Some a\<rparr>"

text \<open>The \<open>finally\<close> block shared by the operations.\<close>

definition finally_loading :: "hook_state \<Rightarrow> hook_state" where
  "finally_loading s = s\<lparr>isLoading := False, loadingAction := None\<rparr>"

text \<open>The test \<open>task && task.id && task.title\<close>.\<close>

fun valid_task :: "Task option \<Rightarrow> bool" where
  "valid_task None = False"
| "valid_task (Some t) = (id' t \<noteq> [] \<and> title t \<noteq> [])"

text \<open>\<open>task.starter_code?.[language] || getDefaultCode(language)\<close>.\<close>

definition starter_or_default :: "Task \<Rightarrow> ProgrammingLanguage \<Rightarrow> string" where
  "starter_or_default task lang =
     (case starter_code task of
        None \<Rightarrow> getDefaultCode (language_name lang)
      | Some m \<Rightarrow>
          (case m (language_name lang) of
             None \<Rightarrow> getDefaultCode (language_name lang)
           | Some c \<Rightarrow> if c \<noteq> [] then c else getDefaultCode (language_name lang)))"

definition GREETING_EN :: string where
  "GREETING_EN =
     ''Hi! I'' @ [CHR 0x27] @ ''m your AI interviewer. Let'' @ [CHR 0x27]
     @ ''s start with the first task. Feel free to ask me about the assignment or ''
     @ ''discuss your approach anytime.''"

definition GREETING_RU :: string where
  "GREETING_RU =
    [CHR 0xD0, CHR 0x9F, CHR 0xD1, CHR 0x80, CHR 0xD0, CHR 0xB8, CHR 0xD0, CHR 0xB2,
     CHR 0xD0, CHR 0xB5, CHR 0xD1, CHR 0x82, CHR 0x21, CHR 0x20, CHR 0xD0, CHR 0xAF,
     CHR 0x20, CHR 0xD0, CHR 0xB1, CHR 0xD1, CHR 0x83, CHR 0xD0, CHR 0xB4, CHR 0xD1,
     CHR 0x83, CHR 0x20, CHR 0xD0, CHR 0xB2, CHR 0xD0, CHR 0xB0, CHR 0xD1, CHR 0x88,
     CHR 0xD0, CHR 0xB8, CHR 0xD0, CHR 0xBC, CHR 0x20, CHR 0x41, CHR 0x49, CHR 0x2D,
     CHR 0xD0, CHR 0xB8, CHR 0xD0, CHR 0xBD, CHR 0xD1, CHR 0x82, CHR 0xD0, CHR 0xB5,
     CHR 0xD1, CHR 0x80, CHR 0xD0, CHR 0xB2, CHR 0xD1, CHR 0x8C, CHR 0xD1, CHR 0x8E,
     CHR 0xD0, CHR 0xB5, CHR 0xD1, CHR 0x80, CHR 0xD0, CHR 0xBE, CHR 0xD0, CHR 0xBC,
     CHR 0x2E, CHR 0x20, CHR 0xD0, CHR 0x94, CHR 0xD0, CHR 0xB0, CHR 0xD0, CHR 0xB2,
     CHR 0xD0, CHR 0xB0, CHR 0xD0, CHR 0xB9, CHR 0xD1, CHR 0x82, CHR 0xD0, CHR 0xB5,
     CHR 0x20, CHR 0xD0, CHR 0xBD, CHR 0xD0, CHR 0xB0, CHR 0xD1, CHR 0x87, CHR 0xD0,
     CHR 0xBD, CHR 0xD0, CHR 0xB5, CHR 0xD0, CHR 0xBC, CHR 0x20, CHR 0xD1, CHR 0x81,
     CHR 0x20, CHR 0xD0, CHR 0xBF, CHR 0xD0, CHR 0xB5, CHR 0xD1, CHR 0x80, CHR 0xD0,
     CHR 0xB2, CHR 0xD0, CHR 0xBE, CHR 0xD0, CHR 0xB3, CHR 0xD0, CHR 0xBE, CHR 0x20,
     CHR 0xD0, CHR 0xB7, CHR 0xD0, CHR 0xB0, CHR 0xD0, CHR 0xB4, CHR 0xD0, CHR 0xB0,
     CHR 0xD0, CHR 0xBD, CHR 0xD0, CHR 0xB8, CHR 0xD1, CHR 0x8F, CHR 0x2E, CHR 0x20,
     CHR 0xD0, CHR 0x95, CHR 0xD1, CHR 0x81, CHR 0xD0, CHR 0xBB, CHR 0xD0, CHR 0xB8,
     CHR 0x20, CHR 0xD1, CHR 0x85, CHR 0xD0, CHR 0xBE, CHR 0xD1, CHR 0x82, CHR 0xD0,
     CHR 0xB8, CHR 0xD1, CHR 0x82, CHR 0xD0, CHR 0xB5, CHR 0x20, CHR 0xD1, CHR 0x83,
     CHR 0xD1, CHR 0x82, CHR 0xD0, CHR 0xBE, CHR 0xD1, CHR 0x87, CHR 0xD0, CHR 0xBD,
     CHR 0xD0, CHR 0xB8, CHR 0xD1, CHR 0x82, CHR 0xD1, CHR 0x8C, CHR 0x20, CHR 0xD1,
     CHR 0x84, CHR 0xD0, CHR 0xBE, CHR 0xD1, CHR 0x80, CHR 0xD0, CHR 0xBC, CHR 0xD1,
     CHR 0x83, CHR 0xD0, CHR 0xBB, CHR 0xD0, CHR 0xB8, CHR 0xD1, CHR 0x80, CHR 0xD0,
     CHR 0xBE, CHR 0xD0, CHR 0xB2, CHR 0xD0, CHR 0xBA, CHR 0xD1, CHR 0x83, CHR 0x20,
     CHR 0xD0, CHR 0xB8, CHR 0xD0, CHR 0xBB, CHR 0xD0, CHR 0xB8, CHR 0x20, CHR 0xD0,
     CHR 0xBE, CHR 0xD0, CHR 0xB1, CHR 0xD1, CHR 0x81, CHR 0xD1, CHR 0x83, CHR 0xD0,
     CHR 0xB4, CHR 0xD0, CHR 0xB8, CHR 0xD1, CHR 0x82, CHR 0xD1, CHR 0x8C, CHR 0x20,
     CHR 0xD0, CHR 0xBF, CHR 0xD0, CHR 0xBE, CHR 0xD0, CHR 0xB4, CHR 0xD1, CHR 0x85,
     CHR 0xD0, CHR 0xBE, CHR 0xD0, CHR 0xB4, CHR 0x20, CHR 0xE2, CHR 0x80, CHR 0x94,
     CHR 0x20, CHR 0xD0, CHR 0xBF, CHR 0xD1, CHR 0x80, CHR 0xD0, CHR 0xBE, CHR 0xD1,
     CHR 0x81, CHR 0xD1, CHR 0x82, CHR 0xD0, CHR 0xBE, CHR 0x20, CHR 0xD0, CHR 0xBD,
     CHR 0xD0, CHR 0xB0, CHR 0xD0, CHR 0xBF, CHR 0xD0, CHR 0xB8, CHR 0xD1, CHR 0x88,
     CHR 0xD0, CHR 0xB8, CHR 0xD1, CHR 0x82, CHR 0xD0, CHR 0xB5, CHR 0x20, CHR 0xD0,
     CHR 0xBC, CHR 0xD0, CHR 0xBD, CHR 0xD0, CHR 0xB5, CHR 0x2E]"

fun getGreetingMessage :: "TaskLanguage \<Rightarrow> string" where
  "getGreetingMessage En = GREETING_EN"
| "getGreetingMessage Ru = GREETING_RU"

section \<open>The operations of \<open>useInterview\<close>\<close>

text \<open>
  Each operation takes the API client and the state and returns what the caller of the
  \<open>async\<close> function gets (\<open>Inl\<close>: the promise is rejected) with the state after
  it has settled. \<open>None\<close> is \<open>null\<close>.
\<close>

definition startInterview ::
  "apiClient \<Rightarrow> start_data \<Rightarrow> hook_state \<Rightarrow> (error + InterviewState) \<times> hook_state" where
  "startInterview api data s =
     (let s1 = begin_loading Start s in
      case startInterview_api api data of
        Inl e \<Rightarrow>
          (Inl e, finally_loading (console_error ''Error starting interview:'' (Some e) s1))
      | Inr result \<Rightarrow>
          (let s2 = s1\<lparr>interview := Some result\<rparr>;
               s3 = console_log ''[use-interview] Generating first task...'' s2;
               s4 =
                 (case generateTask_api api (InterviewState.interview_id result) 1 None of
                    Inl e \<Rightarrow>
                      (console_error ''[use-interview] Error generating first task:'' (Some e) s3)
                        \<lparr>code := getDefaultCode (language_name (start_data.language data))\<rparr>
                  | Inr task \<Rightarrow>
                      (let s3a = console_log ''[use-interview] Task received:'' s3 in
                       if valid_task task then
                         (console_log ''[use-interview] Setting current task'' s3a)
                           \<lparr>currentTask := task,
                            code := starter_or_default (the task) (start_data.language data)\<rparr>
                       else
                         (console_error
                            ''[use-interview] Failed to generate task: task is null or invalid''
                            None s3a)
                           \<lparr>code := getDefaultCode (language_name (start_data.language data))\<rparr>));
               s5 = s4\<lparr>chatMessages :=
                          [\<lparr>role = Assistant,
                            content = getGreetingMessage (start_data.task_language data)\<rparr>]\<rparr>
           in (Inr result, finally_loading s5)))"

definition submitCode :: "apiClient \<Rightarrow> hook_state \<Rightarrow> (error + submit_result option) \<times> hook_state"
  where
  "submitCode api s =
     (case (interview s, currentTask s) of
        (Some iv, Some task) \<Rightarrow>
          (let s1 = begin_loading Submit s in
           case submitCode_api api (InterviewState.interview_id iv) (id' task) (code s)
                  (InterviewState.language iv) of
             Inl e \<Rightarrow> (Inl e, finally_loading s1)
           | Inr result \<Rightarrow>
               (Inr (Some result),
                finally_loading (s1\<lparr>taskScores := taskScores s1 @ [score (evaluation result)]\<rparr>)))
      | _ \<Rightarrow> (Inr None, s))"

definition runTests :: "apiClient \<Rightarrow> hook_state \<Rightarrow> (error + ExecutionResult option) \<times> hook_state"
  where
  "runTests api s =
     (case (interview s, currentTask s) of
        (Some iv, Some task) \<Rightarrow>
          (let s1 = begin_loading Tests s in
           case runTests_api api (InterviewState.interview_id iv) (id' task) (code s)
                  (InterviewState.language iv) of
             Inl e \<Rightarrow> (Inr None, finally_loading (console_error ''Error running tests:'' (Some e) s1))
           | Inr result \<Rightarrow> (Inr (Some result), finally_loading s1))
      | _ \<Rightarrow>
          (Inr None, console_error ''Cannot run tests: interview or task is missing'' None s))"

definition getHint :: "apiClient \<Rightarrow> hook_state \<Rightarrow> (error + hint_result option) \<times> hook_state" where
  "getHint api s =
     (case (interview s, currentTask s) of
        (Some iv, Some task) \<Rightarrow>
          (let s1 = begin_loading Hint s in
           case getHint_api api (InterviewState.interview_id iv) (id' task) (code s) of
             Inl e \<Rightarrow> (Inr None, finally_loading (console_error ''Error getting hint:'' (Some e) s1))
           | Inr result \<Rightarrow>
               (Inr result,
                finally_loading
                  (if result \<noteq> None then s1\<lparr>hintsUsed := hintsUsed s1 + 1\<rparr> else s1)))
      | _ \<Rightarrow> (Inr None, console_error ''Cannot get hint: interview or task is missing'' None s))"

text \<open>
  \<open>avgScore\<close> is the mean of the scores so far, \<open>undefined\<close> when there are none.
\<close>

definition avgScore :: "rat list \<Rightarrow> rat option" where
  "avgScore scores =
     (if length scores > 0 then Some (foldl (+) 0 scores / of_nat (length scores)) else None)"

definition nextTask :: "apiClient \<Rightarrow> hook_state \<Rightarrow> (error + Task option) \<times> hook_state" where
  "nextTask api s =
     (case interview s of
        None \<Rightarrow> (Inr None, s)
      | Some iv \<Rightarrow>
          (let nextNum = taskNumber s + 1 in
           if nextNum > total_tasks iv then (Inr None, s)
           else
             (let s1 = begin_loading NextTask s;
                  s2 = console_log
                         (''[use-interview] Generating next task '' @ show_int nextNum @ ''...'') s1;
                  default_code = getDefaultCode (language_name (InterviewState.language iv))
              in case generateTask_api api (InterviewState.interview_id iv) nextNum
                        (avgScore (taskScores s)) of
                   Inl e \<Rightarrow>
                     (Inr None,
                      finally_loading
                        ((console_error ''Error generating next task:'' (Some e) s2)
                           \<lparr>code := default_code\<rparr>))
                 | Inr task \<Rightarrow>
                     (let s3 = console_log ''[use-interview] Next task received:'' s2 in
                      if valid_task task then
                        (Inr task,
                         finally_loading
                           ((console_log ''[use-interview] Setting next task'' s3)
                              \<lparr>currentTask := task, taskNumber := nextNum,
                               code := starter_or_default (the task) (InterviewState.language iv)\<rparr>))
                      else
                        (Inr None,
                         finally_loading
                           ((console_error
                               ''[use-interview] Failed to generate task: task is null or invalid''
                               None s3)
                              \<lparr>code := default_code\<rparr>))))))"

text \<open>
  The \<open>onChunk\<close> callback of \<open>sendMessage\<close>: it extends \<open>assistantMessage\<close> and
  overwrites the last chat message. The pair is the state and \<open>assistantMessage\<close>.
\<close>

definition onChunk :: "hook_state \<times> string \<Rightarrow> string \<Rightarrow> hook_state \<times> string" where
  "onChunk sa chunk =
     (let assistantMessage = snd sa @ chunk;
          prev = chatMessages (fst sa);
          updated = prev[length prev - 1 := \<lparr>role = Assistant, content = assistantMessage\<rparr>]
      in ((fst sa)\<lparr>chatMessages := updated\<rparr>, assistantMessage))"

definition sendMessage :: "apiClient \<Rightarrow> string \<Rightarrow> hook_state \<Rightarrow> (error + unit) \<times> hook_state" where
  "sendMessage api message s =
     (case interview s of
        None \<Rightarrow> (Inr (), s)
      | Some iv \<Rightarrow>
          (let s1 = s\<lparr>chatMessages := chatMessages s @ [\<lparr>role = User, content = message\<rparr>]\<rparr>;
               s2 = s1\<lparr>chatMessages := chatMessages s1 @ [\<lparr>role = Assistant, content = []\<rparr>]\<rparr>;
               s3 = s2\<lparr>chatLoading := True, isChatStreaming := True\<rparr>;
               streamed = sendChatMessage_api api (InterviewState.interview_id iv) message
                            Softskills (map_option id' (currentTask s));
               s4 = fst (foldl onChunk (s3, []) (fst streamed));
               s5 = s4\<lparr>chatLoading := False, isChatStreaming := False\<rparr>
           in (case snd streamed of None \<Rightarrow> (Inr (), s5) | Some e \<Rightarrow> (Inl e, s5))))"

definition finishInterview ::
  "apiClient \<Rightarrow> hook_state \<Rightarrow> (error + finish_result option) \<times> hook_state" where
  "finishInterview api s =
     (case interview s of
        None \<Rightarrow> (Inr None, s)
      | Some iv \<Rightarrow>
          (let s1 = begin_loading Finish s in
           case finishInterview_api api (InterviewState.interview_id iv) of
             Inl e \<Rightarrow> (Inl e, finally_loading s1)
           | Inr result \<Rightarrow> (Inr (Some result), finally_loading s1)))"

definition setCode :: "string \<Rightarrow> hook_state \<Rightarrow> hook_state" where
  "setCode c s = s\<lparr>code := c\<rparr>"

text \<open>
  The operations in the object that \<open>useInterview\<close> returns, and the state after one
  of them has run to completion.
\<close>

datatype hook_op =
    StartInterview start_data
  | SubmitCode
  | RunTests
  | GetHint
  | NextTaskOp
  | SendMessage string
  | FinishInterview
  | SetCode string

fun run_op :: "apiClient \<Rightarrow> hook_op \<Rightarrow> hook_state \<Rightarrow> hook_state" where
  "run_op api (StartInterview data) s = snd (startInterview api data s)"
| "run_op api SubmitCode s = snd (submitCode api s)"
| "run_op api RunTests s = snd (runTests api s)"
| "run_op api GetHint s = snd (getHint api s)"
| "run_op api NextTaskOp s = snd (nextTask api s)"
| "run_op api (SendMessage message) s = snd (sendMessage api message s)"
| "run_op api FinishInterview s = snd (finishInterview api s)"
| "run_op api (SetCode c) s = setCode c s"

text \<open>
  The states the hook can be in between two operations, when each operation runs to
  completion before the next one starts; the API may answer differently each time.
\<close>

inductive reachable :: "hook_state \<Rightarrow> bool" where
  init: "reachable useInterview_init"
| step: "reachable s \<Longrightarrow> reachable (run_op api op s)"


definition idle :: "hook_state \<Rightarrow> bool" where
  "idle s = (\<not> isLoading s \<and> loadingAction s = None)"

section \<open>The HTTP layer of \<open>lib/api-client.ts\<close>\<close>

text \<open>A JSON value; \<open>JObj\<close> keeps the properties in the order they were written.\<close>

datatype json =
    JNull
  | JBool bool
  | JNum rat
  | JStr string
  | JArr "json list"
  | JObj "(string \<times> json) list"

text \<open>
  The second argument of \<open>fetch\<close> (a \<open>RequestInit\<close>) with the URL; its property
  \<open>method\<close> is written \<open>http_method\<close>. \<open>body\<close> is the
  value given to \<open>JSON.stringify\<close>. \<open>signal\<close> is the optional \<open>AbortSignal\<close> of a
  \<open>RequestInit\<close>, the only handle by which the caller of \<open>fetch\<close> can abort a request
  that is under way; \<open>None\<close> when the object literal has no such property.
\<close>

datatype abort_signal = AbortSignal nat

record http_request =
  url :: string
  http_method :: string
  headers :: "(string \<times> string) list"
  body :: json
  signal :: "abort_signal option"

text \<open>
  A response: \<open>res.ok\<close>, \<open>res.status\<close>, the raw body (\<open>res.text()\<close>) and what
  \<open>res.json()\<close> gives, read as the type the method declares (it throws on a body that
  is not JSON).
\<close>

record 'a http_response =
  ok :: bool
  status :: int
  body_text :: string
  body_json :: "error + 'a"

text \<open>\<open>fetch\<close> rejects (network failure) or resolves with a response.\<close>

datatype 'a fetch_outcome = Rejected error | Resolved "'a http_response"

definition DEFAULT_API_BASE :: string where
  "DEFAULT_API_BASE = ''http://localhost:8000''"

text \<open>\<open>process.env.NEXT_PUBLIC_API_URL || "http://localhost:8000"\<close>.\<close>

definition API_BASE :: "string option \<Rightarrow> string" where
  "API_BASE env_url = (if truthy env_url then the env_url else DEFAULT_API_BASE)"

definition runTests_request ::
  "string \<Rightarrow> string \<Rightarrow> string \<Rightarrow> string \<Rightarrow> ProgrammingLanguage \<Rightarrow> http_request" where
  "runTests_request base iid tid src lang =
     \<lparr>url = base @ ''/api/interview/run-tests'',
      http_method = ''POST'',
      headers = [(''Content-Type'', ''application/json'')],
      body = JObj [(''interview_id'', JStr iid), (''task_id'', JStr tid),
                   (''code'', JStr src), (''language'', JStr (language_name lang))],
      signal = None\<rparr>"

text \<open>\<open>apiClient.runTests\<close>, over the \<open>fetch\<close> it calls.\<close>

definition apiClient_runTests ::
  "(http_request \<Rightarrow> ExecutionResult fetch_outcome) \<Rightarrow> string \<Rightarrow>
   string \<Rightarrow> string \<Rightarrow> string \<Rightarrow> ProgrammingLanguage \<Rightarrow> error + ExecutionResult" where
  "apiClient_runTests fetch base iid tid src lang =
     (case fetch (runTests_request base iid tid src lang) of
        Rejected e \<Rightarrow> Inl e
      | Resolved res \<Rightarrow>
          if \<not> ok res then Inl (Error ''Failed to run tests'') else body_json res)"

text \<open>The property names of a JSON object, in order.\<close>

fun json_keys :: "json \<Rightarrow> string list" where
  "json_keys (JObj kvs) = map fst kvs"
| "json_keys _ = []"

section \<open>The lines a test case contributes to the terminal, as the specification words them\<close>

text \<open>
  A test case contributes a status line, the detail lines \<open>Input\<close>, \<open>Expected\<close>,
  \<open>Actual\<close> and \<open>Error\<close> when it failed and the field is a non-empty string, and a
  time line when its time is not zero. These definitions follow that wording; they are
  compared with \<open>TestTerminal_test\<close> below.
\<close>

definition status_line :: "TestResult \<Rightarrow> string" where
  "status_line t =
     (if passed t
      then ESC @ ''[32m'' @ CHECK_MARK @ '' Test '' @ show_int (test_number t) @ '': PASSED''
             @ ESC @ ''[0m'' @ NL
      else ESC @ ''[31m'' @ BALLOT_X @ '' Test '' @ show_int (test_number t) @ '': FAILED''
             @ ESC @ ''[0m'' @ NL)"

definition detail_line :: "string \<Rightarrow> string \<Rightarrow> string" where
  "detail_line label v = ''  '' @ label @ '': '' @ v @ NL"

definition time_line :: "TestResult \<Rightarrow> string" where
  "time_line t = ''  Time: '' @ show_int (TestResult.execution_time_ms t) @ ''ms'' @ NL"

definition test_lines :: "TestResult \<Rightarrow> string list" where
  "test_lines t =
     [status_line t]
     @ (if \<not> passed t \<and> TestResult.input t \<noteq> []
        then [detail_line ''Input'' (TestResult.input t)] else [])
     @ (if \<not> passed t \<and> expected t \<noteq> [] then [detail_line ''Expected'' (expected t)] else [])
     @ (if \<not> passed t \<and> actual t \<noteq> [] then [detail_line ''Actual'' (actual t)] else [])
     @ (if \<not> passed t \<and> truthy (TestResult.error t)
        then [detail_line ''Error'' (the (TestResult.error t))] else [])
     @ (if TestResult.execution_time_ms t \<noteq> 0 then [time_line t] else [])"

text \<open>The block of the terminal text that the list of test results contributes.\<close>

definition tests_block :: "TestResult list \<Rightarrow> string" where
  "tests_block ts =
     (if ts = [] then []
      else NL @ NL @ ''=== Test Results ==='' @ NL @ concat (map (\<lambda>t. concat (test_lines t)) ts))"

section \<open>Sample values\<close>

definition t_pass :: TestResult where
  "t_pass =
     \<lparr>test_number = 1, passed = True, TestResult.input = ''2 3'', expected = ''5'',
      actual = ''5'', TestResult.error = None, TestResult.execution_time_ms = 12\<rparr>"

definition t_fail :: TestResult where
  "t_fail =
     \<lparr>test_number = 2, passed = False, TestResult.input = ''4 4'', expected = ''8'',
      actual = ''9'', TestResult.error = Some ''boom'', TestResult.execution_time_ms = 0\<rparr>"

definition exec_sample :: ExecutionResult where
  "exec_sample =
     \<lparr>success = Some False, ExecutionResult.output' = None, ExecutionResult.error = None,
      ExecutionResult.execution_time_ms = 12, memory_used_mb = 45,
      test_results = Some [t_pass, t_fail]\<rparr>"

definition iv_sample :: InterviewState where
  "iv_sample =
     \<lparr>InterviewState.interview_id = ''iv-1'', InterviewState.status = ''in_progress'',
      current_task = 1, total_tasks = 3, InterviewState.direction = Backend,
      InterviewState.language = Python, InterviewState.task_language = En,
      InterviewState.difficulty = Medium, started_at = ''2025-01-01T00:00:00Z''\<rparr>"

definition task_sample :: Task where
  "task_sample =
     \<lparr>id' = ''task-1'', title = ''Sum of two numbers'', description = ''Add them.'',
      task_type = Algorithm, Task.difficulty = Easy, examples = [], constraints = None,
      time_limit_minutes = 15, starter_code = None\<rparr>"


text \<open>A backend that answers every call, and one whose every call fails.\<close>

definition api_up :: apiClient where
  "api_up =
     \<lparr>startInterview_api = (\<lambda>_. Inr iv_sample),
      generateTask_api = (\<lambda>_ _ _. Inr (Some task_sample)),
      submitCode_api = (\<lambda>_ _ _ _. Inl (Error ''Failed to submit code'')),
      runTests_api = (\<lambda>_ _ _ _. Inr exec_sample),
      getHint_api = (\<lambda>_ _ _. Inr None),
      sendChatMessage_api = (\<lambda>_ _ _ _. ([], None)),
      finishInterview_api = (\<lambda>_. Inl (Error ''Failed to finish interview''))\<rparr>"

definition api_down :: apiClient where
  "api_down =
     \<lparr>startInterview_api = (\<lambda>_. Inl (Error ''Failed to start interview'')),
      generateTask_api = (\<lambda>_ _ _. Inl (Error ''Failed to generate task: 500 '')),
      submitCode_api = (\<lambda>_ _ _ _. Inl (Error ''Failed to submit code'')),
      runTests_api = (\<lambda>_ _ _ _. Inl (Error ''Failed to run tests'')),
      getHint_api = (\<lambda>_ _ _. Inl (Error ''Failed to get hint'')),
      sendChatMessage_api = (\<lambda>_ _ _ _. ([], Some (Error ''Failed to send message''))),
      finishInterview_api = (\<lambda>_. Inl (Error ''Failed to finish interview''))\<rparr>"

definition s_ready :: hook_state where
  "s_ready = useInterview_init\<lparr>interview := Some iv_sample, currentTask := Some task_sample\<rparr>"

text \<open>
  The hook while \<open>startInterview\<close> awaits the server: loading has begun and no
  interview is set yet.
\<close>

definition s_loading :: hook_state where
  "s_loading = begin_loading Start useInterview_init"





text \<open>
  A backend that answers the test run with status 500 and a stack trace in the body, and
  a \<open>fetch\<close> that knows the test-run endpoint only.
\<close>

definition res_500 :: "ExecutionResult http_response" where
  "res_500 =
     \<lparr>ok = False, status = 500,
      body_text = ''Traceback (most recent call last): File runner.py, line 88, in execute'',
      body_json = Inl (Error ''Unexpected token T in JSON at position 0'')\<rparr>"

definition fetch_500 :: "http_request \<Rightarrow> ExecutionResult fetch_outcome" where
  "fetch_500 req = Resolved res_500"

definition api_500 :: apiClient where
  "api_500 = api_up\<lparr>runTests_api := apiClient_runTests fetch_500 DEFAULT_API_BASE\<rparr>"


definition fetch_run_tests_only :: "http_request \<Rightarrow> ExecutionResult fetch_outcome" where
  "fetch_run_tests_only req =
     (if url req = DEFAULT_API_BASE @ ''/api/interview/run-tests'' then Resolved res_500
      else Rejected (Error ''Failed to fetch''))"
section \<open>The shape of the test-run result\<close>

text \<open>
  The JSON object of a value of the interfaces \<open>TestResult\<close> and \<open>ExecutionResult\<close>:
  one property for each declared field, an optional one only when it is set.
  \<open>apiClient.runTests\<close> returns \<open>res.json()\<close> as an \<open>ExecutionResult\<close>.
\<close>

definition TestResult_json :: "TestResult \<Rightarrow> json" where
  "TestResult_json t =
     JObj ([(''test_number'', JNum (of_int (test_number t))),
            (''passed'', JBool (passed t)),
            (''input'', JStr (TestResult.input t)),
            (''expected'', JStr (expected t)),
            (''actual'', JStr (actual t))]
           @ (case TestResult.error t of None \<Rightarrow> [] | Some e \<Rightarrow> [(''error'', JStr e)])
           @ [(''execution_time_ms'', JNum (of_int (TestResult.execution_time_ms t)))])"

definition ExecutionResult_json :: "ExecutionResult \<Rightarrow> json" where
  "ExecutionResult_json r =
     JObj ((case success r of None \<Rightarrow> [] | Some b \<Rightarrow> [(''success'', JBool b)])
           @ (case ExecutionResult.output' r of None \<Rightarrow> [] | Some s \<Rightarrow> [(''output'', JStr s)])
           @ (case ExecutionResult.error r of None \<Rightarrow> [] | Some e \<Rightarrow> [(''error'', JStr e)])
           @ [(''execution_time_ms'', JNum (of_int (ExecutionResult.execution_time_ms r))),
              (''memory_used_mb'', JNum (memory_used_mb r))]
           @ (case test_results r of
                None \<Rightarrow> []
              | Some ts \<Rightarrow> [(''test_results'', JArr (map TestResult_json ts))]))"

text \<open>The value of a property of a JSON object, \<open>None\<close> when it has no such property.\<close>

fun json_get :: "json \<Rightarrow> string \<Rightarrow> json option" where
  "json_get (JObj kvs) k = map_of kvs k"
| "json_get _ k = None"

text \<open>
  The aggregate report as the specification words it: a value that separates a visible
  list from a hidden part (\<open>visible_results\<close> and \<open>hidden_summary\<close> in its data model,
  \<open>test_results.visible\<close> and \<open>test_results.hidden\<close> at its interface), and that
  has a summary of counts (\<open>hidden_summary\<close>, or \<open>summary\<close> at the interface).
\<close>

definition spec_visible_hidden_split :: "json \<Rightarrow> bool" where
  "spec_visible_hidden_split v =
     ((json_get v ''visible_results'' \<noteq> None \<and> json_get v ''hidden_summary'' \<noteq> None)
      \<or> (case json_get v ''test_results'' of
            None \<Rightarrow> False
          | Some tr \<Rightarrow> json_get tr ''visible'' \<noteq> None \<and> json_get tr ''hidden'' \<noteq> None))"

definition spec_summary_of_counts :: "json \<Rightarrow> bool" where
  "spec_summary_of_counts v =
     (json_get v ''hidden_summary'' \<noteq> None \<or> json_get v ''summary'' \<noteq> None)"

definition res_200 :: "ExecutionResult http_response" where
  "res_200 = \<lparr>ok = True, status = 200, body_text = [], body_json = Inr exec_sample\<rparr>"

definition fetch_200 :: "http_request \<Rightarrow> ExecutionResult fetch_outcome" where
  "fetch_200 req = Resolved res_200"

section \<open>Stopping a test run (\<open>components/interview/progress-bar.tsx\<close>)\<close>

text \<open>The Russian message of the editor for a test run that threw, in UTF-8.\<close>

definition TESTS_ERROR_RU :: string where
  "TESTS_ERROR_RU =
    [CHR 0xD0, CHR 0x9E, CHR 0xD1, CHR 0x88, CHR 0xD0, CHR 0xB8, CHR 0xD0, CHR 0xB1,
     CHR 0xD0, CHR 0xBA, CHR 0xD0, CHR 0xB0, CHR 0x20, CHR 0xD0, CHR 0xBF, CHR 0xD1,
     CHR 0x80, CHR 0xD0, CHR 0xB8, CHR 0x20, CHR 0xD0, CHR 0xB2, CHR 0xD1, CHR 0x8B,
     CHR 0xD0, CHR 0xBF, CHR 0xD0, CHR 0xBE, CHR 0xD0, CHR 0xBB, CHR 0xD0, CHR 0xBD,
     CHR 0xD0, CHR 0xB5, CHR 0xD0, CHR 0xBD, CHR 0xD0, CHR 0xB8, CHR 0xD0, CHR 0xB8,
     CHR 0x20, CHR 0xD1, CHR 0x82, CHR 0xD0, CHR 0xB5, CHR 0xD1, CHR 0x81, CHR 0xD1,
     CHR 0x82, CHR 0xD0, CHR 0xBE, CHR 0xD0, CHR 0xB2]"

text \<open>
  The local state of \<open>CodeEditor\<close> that its test terminal shows. \<open>in_flight\<close> is not
  a variable of the component: it counts the calls of \<open>onRunTests\<close> that the component
  is awaiting.
\<close>

record editor_state =
  isRunning :: bool
  localTestResults :: "ExecutionResult option"
  editor_console :: "log_entry list"
  in_flight :: nat

definition editor_init :: editor_state where
  "editor_init =
     \<lparr>isRunning = False, localTestResults = None, editor_console = [], in_flight = 0\<rparr>"

text \<open>
  \<open>handleRunTests\<close> up to its \<open>await\<close>, and from there on when the promise of
  \<open>onRunTests\<close> has settled with the given outcome. The object literal of the
  \<open>catch\<close> block sets \<open>success\<close>, \<open>error\<close> and \<open>test_results\<close> only; the two
  numbers, which the terminal never reads from it, are 0 here.
\<close>

definition handleRunTests_begin :: "editor_state \<Rightarrow> editor_state" where
  "handleRunTests_begin e =
     e\<lparr>isRunning := True, localTestResults := None, in_flight := in_flight e + 1\<rparr>"

definition handleRunTests_settled ::
  "error + ExecutionResult option \<Rightarrow> editor_state \<Rightarrow> editor_state" where
  "handleRunTests_settled outcome e =
     (let e1 =
        (case outcome of
           Inr (Some results) \<Rightarrow> e\<lparr>localTestResults := Some results\<rparr>
         | Inr None \<Rightarrow> e
         | Inl err \<Rightarrow>
             e\<lparr>editor_console :=
                  editor_console e @ [ConsoleError ''Error running tests:'' (Some err)],
               localTestResults :=
                  Some \<lparr>success = Some False, ExecutionResult.output' = None,
                        ExecutionResult.error = Some TESTS_ERROR_RU,
                        ExecutionResult.execution_time_ms = 0, memory_used_mb = 0,
                        test_results = Some []\<rparr>\<rparr>)
      in e1\<lparr>isRunning := False, in_flight := in_flight e - 1\<rparr>)"

text \<open>The click handler of the stop button of the editor: \<open>() => setIsRunning(false)\<close>.\<close>

definition stop_click :: "editor_state \<Rightarrow> editor_state" where
  "stop_click e = e\<lparr>isRunning := False\<rparr>"

text \<open>
  What the candidate can do with the buttons of the test terminal of the editor. The
  button that runs the tests is disabled under \<open>isLoading || isRunning\<close>
  (\<open>isLoading\<close> is a property of the component).
\<close>

datatype editor_action = RunTestsClick | StopClick

fun editor_act :: "bool \<Rightarrow> editor_action \<Rightarrow> editor_state \<Rightarrow> editor_state" where
  "editor_act loading RunTestsClick e =
     (if loading \<or> isRunning e then e else handleRunTests_begin e)"
| "editor_act loading StopClick e = stop_click e"

text \<open>
  \<open>TestTerminal\<close> renders its stop button under \<open>isRunning && onStop\<close>; the property
  \<open>onStop\<close> is optional.
\<close>

definition TestTerminal_stop_button :: "bool \<Rightarrow> 'h option \<Rightarrow> bool" where
  "TestTerminal_stop_button running onStop = (running \<and> onStop \<noteq> None)"

text \<open>
  An operation cancels the test run that is in flight when, after it, that run is no
  longer awaited.
\<close>

definition cancels_run :: "(editor_state \<Rightarrow> editor_state) \<Rightarrow> editor_state \<Rightarrow> bool" where
  "cancels_run operation e = (in_flight (operation e) < in_flight e)"

section \<open>The outward response of the test runner\<close>

text \<open>
  Modelled from the spec: the status of a test case in the outward response of the test
  runner, \<open>"passed"\<close> or \<open>"failed"\<close>.
\<close>

definition case_status :: "TestCaseResult \<Rightarrow> string" where
  "case_status r = (if TestCaseResult.passed r then ''passed'' else ''failed'')"

text \<open>
  Modelled from the spec: the entry of a visible test case in the outward response of the
  test runner, with full detail:
  \<open>{ id, status, input, expected_output, actual_output, execution_time_ms, error|null }\<close>.
\<close>

definition expose_visible :: "TestCaseResult \<Rightarrow> json" where
  "expose_visible r =
     JObj [(''id'', JStr (test_id r)),
           (''status'', JStr (case_status r)),
           (''input'', JStr (TestCaseResult.input r)),
           (''expected_output'', JStr (expected_output r)),
           (''actual_output'', JStr (actual_output r)),
           (''execution_time_ms'', JNum (of_int (duration_ms r))),
           (''error'', (case TestCaseResult.error r of None \<Rightarrow> JNull | Some e \<Rightarrow> JStr e))]"

text \<open>
  Modelled from the spec: the entry of a hidden test case in the outward response of the
  test runner, \<open>{ id, status, execution_time_ms }\<close>: the identifier, the pass/fail
  status and the duration of the internal result.
\<close>

definition expose_hidden :: "TestCaseResult \<Rightarrow> json" where
  "expose_hidden r =
     JObj [(''id'', JStr (test_id r)),
           (''status'', JStr (case_status r)),
           (''execution_time_ms'', JNum (of_int (duration_ms r)))]"

text \<open>
  Modelled from the spec: the summary of the outward response of the test runner,
  \<open>{ visible_passed, visible_failed, hidden_passed, hidden_failed }\<close>, the numbers of
  test cases of each kind that passed and that failed.
\<close>

definition summary :: "TestCaseResult list \<Rightarrow> TestCaseResult list \<Rightarrow> json" where
  "summary visible hidden =
     JObj [(''visible_passed'', JNum (of_nat (length (filter TestCaseResult.passed visible)))),
           (''visible_failed'',
              JNum (of_nat (length (filter (\<lambda>r. \<not> TestCaseResult.passed r) visible)))),
           (''hidden_passed'', JNum (of_nat (length (filter TestCaseResult.passed hidden)))),
           (''hidden_failed'',
              JNum (of_nat (length (filter (\<lambda>r. \<not> TestCaseResult.passed r) hidden))))]"

text \<open>
  Modelled from the spec: the outward response of the test runner,
  \<open>{ execution, test_results: { visible, hidden }, summary }\<close>, built from the
  top-level execution outcome and the internal results of the visible and of the hidden
  test cases, each list in the order the test cases were supplied.
\<close>

definition outward_response :: "json \<Rightarrow> TestCaseResult list \<Rightarrow> TestCaseResult list \<Rightarrow> json"
  where
  "outward_response execution visible hidden =
     JObj [(''execution'', execution),
           (''test_results'',
              JObj [(''visible'', JArr (map expose_visible visible)),
                    (''hidden'', JArr (map expose_hidden hidden))]),
           (''summary'', summary visible hidden)]"

text \<open>The entries of the hidden test cases in a response, read back from it.\<close>

definition hidden_entries :: "json \<Rightarrow> json list" where
  "hidden_entries response =
     (case json_get response ''test_results'' of
        Some tr \<Rightarrow> (case json_get tr ''hidden'' of Some (JArr hs) \<Rightarrow> hs | _ \<Rightarrow> [])
      | None \<Rightarrow> [])"

text \<open>
  The example of the specification: five visible test cases that pass, five hidden ones
  of which the second and the fifth fail.
\<close>

definition case_result :: "string \<Rightarrow> bool \<Rightarrow> TestCaseResult" where
  "case_result name p =
     \<lparr>test_id = name, TestCaseResult.passed = p, TestCaseResult.input = ''3'',
      expected_output = ''6'', actual_output = (if p then ''6'' else ''7''),
      TestCaseResult.error = None, duration_ms = 10\<rparr>"

definition visible_example :: "TestCaseResult list" where
  "visible_example =
     [case_result ''test_1'' True, case_result ''test_2'' True, case_result ''test_3'' True,
      case_result ''test_4'' True, case_result ''test_5'' True]"

definition hidden_example :: "TestCaseResult list" where
  "hidden_example =
     [case_result ''hidden_1'' True, case_result ''hidden_2'' False,
      case_result ''hidden_3'' True, case_result ''hidden_4'' True,
      case_result ''hidden_5'' False]"

section \<open>Shared facts about the hook\<close>

lemmas hook_defs = begin_loading_def finally_loading_def console_log_def console_error_def

lemma idle_startInterview: "idle (snd (startInterview api data s))"
  by (simp add: startInterview_def idle_def hook_defs Let_def split: sum.splits option.splits)

lemma idle_submitCode: "idle s \<Longrightarrow> idle (snd (submitCode api s))"
  by (simp add: submitCode_def idle_def hook_defs Let_def split: sum.splits option.splits)

lemma idle_runTests: "idle s \<Longrightarrow> idle (snd (runTests api s))"
  by (simp add: runTests_def idle_def hook_defs Let_def split: sum.splits option.splits)

lemma idle_getHint: "idle s \<Longrightarrow> idle (snd (getHint api s))"
  by (simp add: getHint_def idle_def hook_defs Let_def split: sum.splits option.splits)

lemma idle_nextTask: "idle s \<Longrightarrow> idle (snd (nextTask api s))"
  by (simp add: nextTask_def idle_def hook_defs Let_def split: sum.splits option.splits)

text \<open>Streaming a chat answer touches the chat messages only.\<close>

lemma onChunk_frame:
  "isLoading (fst (onChunk sa c)) = isLoading (fst sa)"
  "loadingAction (fst (onChunk sa c)) = loadingAction (fst sa)"
  "taskNumber (fst (onChunk sa c)) = taskNumber (fst sa)"
  "interview (fst (onChunk sa c)) = interview (fst sa)"
  "currentTask (fst (onChunk sa c)) = currentTask (fst sa)"
  by (simp_all add: onChunk_def Let_def)

lemma foldl_onChunk_frame:
  "isLoading (fst (foldl onChunk sa cs)) = isLoading (fst sa) \<and>
   loadingAction (fst (foldl onChunk sa cs)) = loadingAction (fst sa) \<and>
   taskNumber (fst (foldl onChunk sa cs)) = taskNumber (fst sa) \<and>
   interview (fst (foldl onChunk sa cs)) = interview (fst sa) \<and>
   currentTask (fst (foldl onChunk sa cs)) = currentTask (fst sa)"
  by (induction cs arbitrary: sa) (simp_all add: onChunk_frame)

lemma idle_sendMessage: "idle s \<Longrightarrow> idle (snd (sendMessage api m s))"
  by (simp add: sendMessage_def idle_def Let_def foldl_onChunk_frame split: option.splits)

lemma idle_finishInterview: "idle s \<Longrightarrow> idle (snd (finishInterview api s))"
  by (simp add: finishInterview_def idle_def hook_defs Let_def split: sum.splits option.splits)

lemma idle_run_op: "idle s \<Longrightarrow> idle (run_op api op s)"
  by (cases op)
     (simp_all add: idle_startInterview idle_submitCode idle_runTests idle_getHint idle_nextTask
        idle_sendMessage idle_finishInterview, simp add: idle_def setCode_def)

text \<open>Between two operations the hook is never loading.\<close>

lemma reachable_idle: "reachable s \<Longrightarrow> idle s"
  by (induction rule: reachable.induct)
     (simp_all add: idle_run_op, simp add: idle_def useInterview_init_def)

section \<open>The terminal text\<close>

lemma TestTerminal_test_lines: "TestTerminal_test out t = out @ concat (test_lines t)"
  by (simp add: TestTerminal_test_def test_lines_def status_line_def detail_line_def
      time_line_def Let_def)

lemma foldl_TestTerminal_test:
  "foldl TestTerminal_test out ts = out @ concat (map (\<lambda>t. concat (test_lines t)) ts)"
  by (induction ts arbitrary: out) (simp_all add: TestTerminal_test_lines)

lemma detail_Input_iff:
  "detail_line ''Input'' v \<in> set (test_lines t) \<longleftrightarrow>
     \<not> passed t \<and> v \<noteq> [] \<and> TestResult.input t = v"
  by (cases "TestResult.error t")
     (auto simp add: test_lines_def time_line_def detail_line_def status_line_def ESC_def)

lemma detail_Expected_iff:
  "detail_line ''Expected'' v \<in> set (test_lines t) \<longleftrightarrow>
     \<not> passed t \<and> v \<noteq> [] \<and> expected t = v"
  by (cases "TestResult.error t")
     (auto simp add: test_lines_def time_line_def detail_line_def status_line_def ESC_def)

lemma detail_Actual_iff:
  "detail_line ''Actual'' v \<in> set (test_lines t) \<longleftrightarrow>
     \<not> passed t \<and> v \<noteq> [] \<and> actual t = v"
  by (cases "TestResult.error t")
     (auto simp add: test_lines_def time_line_def detail_line_def status_line_def ESC_def)

lemma detail_Error_iff:
  "detail_line ''Error'' v \<in> set (test_lines t) \<longleftrightarrow>
     \<not> passed t \<and> v \<noteq> [] \<and> TestResult.error t = Some v"
  by (cases "TestResult.error t")
     (auto simp add: test_lines_def time_line_def detail_line_def status_line_def ESC_def)

lemma TestTerminal_output_split:
  "\<exists>pre post. \<forall>ts isRunning.
      TestTerminal_output (Some (r\<lparr>test_results := Some ts\<rparr>)) isRunning
        = pre @ tests_block ts @ post"
proof -
  let ?pre = "(if truthy (ExecutionResult.error r)
               then ESC @ ''[31mError: '' @ the (ExecutionResult.error r) @ ESC @ ''[0m'' @ NL
               else []) @ (if truthy (ExecutionResult.output' r) then the (ExecutionResult.output' r) else [])"
  let ?post = "(case success r of None \<Rightarrow> []
                | Some b \<Rightarrow> NL @ NL @ ESC @ ''['' @ (if b then ''32'' else ''31'') @ ''mOverall: ''
                           @ (if b then ''SUCCESS'' else ''FAILED'') @ ESC @ ''[0m'' @ NL)"
  have "TestTerminal_output (Some (r\<lparr>test_results := Some ts\<rparr>)) isRunning
          = ?pre @ tests_block ts @ ?post" for ts isRunning
    by (simp add: TestTerminal_output_def Let_def foldl_TestTerminal_test tests_block_def
        split: option.splits)
  then show ?thesis by blast
qed

text \<open>
  C8. In the terminal text of a non-null execution result, the test results contribute
  one block, the concatenation of the lines of each test case in order, and nothing
  else of the text depends on them. A test case that passed contributes its status line
  and, when its time is not zero, its time line, and nothing more. The detail line
  \<open>Input\<close>, \<open>Expected\<close>, \<open>Actual\<close> or \<open>Error\<close> is among the lines of a test
  case exactly when the test case failed and the field is a non-empty string, and it
  then shows that field.
\<close>

theorem TestTerminal_details:
  "(\<exists>pre post. \<forall>ts isRunning.
      TestTerminal_output (Some (r\<lparr>test_results := Some ts\<rparr>)) isRunning
        = pre @ tests_block ts @ post)
   \<and> (passed t \<longrightarrow>
        test_lines t
          = status_line t # (if TestResult.execution_time_ms t \<noteq> 0 then [time_line t] else []))
   \<and> (\<forall>v. detail_line ''Input'' v \<in> set (test_lines t)
        \<longleftrightarrow> \<not> passed t \<and> v \<noteq> [] \<and> TestResult.input t = v)
   \<and> (\<forall>v. detail_line ''Expected'' v \<in> set (test_lines t)
        \<longleftrightarrow> \<not> passed t \<and> v \<noteq> [] \<and> expected t = v)
   \<and> (\<forall>v. detail_line ''Actual'' v \<in> set (test_lines t)
        \<longleftrightarrow> \<not> passed t \<and> v \<noteq> [] \<and> actual t = v)
   \<and> (\<forall>v. detail_line ''Error'' v \<in> set (test_lines t)
        \<longleftrightarrow> \<not> passed t \<and> v \<noteq> [] \<and> TestResult.error t = Some v)"
proof (intro conjI)
  show "\<exists>pre post. \<forall>ts isRunning.
      TestTerminal_output (Some (r\<lparr>test_results := Some ts\<rparr>)) isRunning
        = pre @ tests_block ts @ post"
    by (rule TestTerminal_output_split)
  show "passed t \<longrightarrow>
        test_lines t
          = status_line t # (if TestResult.execution_time_ms t \<noteq> 0 then [time_line t] else [])"
    by (simp add: test_lines_def)
  show "\<forall>v. detail_line ''Input'' v \<in> set (test_lines t)
        \<longleftrightarrow> \<not> passed t \<and> v \<noteq> [] \<and> TestResult.input t = v"
    by (simp add: detail_Input_iff)
  show "\<forall>v. detail_line ''Expected'' v \<in> set (test_lines t)
        \<longleftrightarrow> \<not> passed t \<and> v \<noteq> [] \<and> expected t = v"
    by (simp add: detail_Expected_iff)
  show "\<forall>v. detail_line ''Actual'' v \<in> set (test_lines t)
        \<longleftrightarrow> \<not> passed t \<and> v \<noteq> [] \<and> actual t = v"
    by (simp add: detail_Actual_iff)
  show "\<forall>v. detail_line ''Error'' v \<in> set (test_lines t)
        \<longleftrightarrow> \<not> passed t \<and> v \<noteq> [] \<and> TestResult.error t = Some v"
    by (simp add: detail_Error_iff)
qed

theorem TestTerminal_details_witness:
  "passed t_pass
   \<and> test_lines t_pass = [status_line t_pass, time_line t_pass]
   \<and> \<not> passed t_fail
   \<and> detail_line ''Input'' ''4 4'' \<in> set (test_lines t_fail)
   \<and> detail_line ''Error'' ''boom'' \<in> set (test_lines t_fail)
   \<and> detail_line ''Input'' ''2 3'' \<notin> set (test_lines t_pass)"
proof -
  note p = TestTerminal_details [of exec_sample t_pass]
  note f = TestTerminal_details [of exec_sample t_fail]
  have 1: "passed t_pass" and 2: "\<not> passed t_fail"
    by (simp_all add: t_pass_def t_fail_def)
  have 3: "test_lines t_pass = [status_line t_pass, time_line t_pass]"
    using p 1 by (simp add: t_pass_def)
  have 4: "detail_line ''Input'' ''4 4'' \<in> set (test_lines t_fail)"
    using f 2 by (simp add: t_fail_def)
  have 5: "detail_line ''Error'' ''boom'' \<in> set (test_lines t_fail)"
    using f 2 by (simp add: t_fail_def)
  have 6: "detail_line ''Input'' ''2 3'' \<notin> set (test_lines t_pass)"
    using p 1 by blast
  from 1 2 3 4 5 6 show ?thesis by blast
qed

section \<open>Running the tests from the hook\<close>

text \<open>
  C9, as amended. \<open>runTests\<close> of \<open>useInterview\<close> never rejects: whatever the API
  client does, the caller gets a value, which is the execution result that the API client
  returned or \<open>null\<close>. When an interview and a task are present, the loading state is
  reset when the call completes (\<open>isLoading\<close> is false, \<open>loadingAction\<close> is
  \<open>null\<close>). When one is missing, the call returns \<open>null\<close> at once and leaves the
  loading state as it was, so that it is reset after the call only if it was before; this
  is the case in every state that the hook reaches between two operations that run to
  completion.
\<close>

theorem runTests_never_throws:
  "(\<exists>r. fst (runTests api s) = Inr r)
   \<and> (\<forall>x. fst (runTests api s) = Inr (Some x) \<longrightarrow>
         (\<exists>iv task. interview s = Some iv \<and> currentTask s = Some task \<and>
            runTests_api api (InterviewState.interview_id iv) (id' task) (code s)
              (InterviewState.language iv) = Inr x))
   \<and> (interview s \<noteq> None \<and> currentTask s \<noteq> None \<longrightarrow> idle (snd (runTests api s)))
   \<and> (interview s = None \<or> currentTask s = None \<longrightarrow>
         fst (runTests api s) = Inr None \<and>
         isLoading (snd (runTests api s)) = isLoading s \<and>
         loadingAction (snd (runTests api s)) = loadingAction s)
   \<and> (idle s \<longrightarrow> idle (snd (runTests api s)))
   \<and> (reachable s \<longrightarrow> idle (snd (runTests api s)))"
proof (intro conjI)
  show "\<exists>r. fst (runTests api s) = Inr r"
    by (simp add: runTests_def Let_def split: sum.splits option.splits)
  show "\<forall>x. fst (runTests api s) = Inr (Some x) \<longrightarrow>
         (\<exists>iv task. interview s = Some iv \<and> currentTask s = Some task \<and>
            runTests_api api (InterviewState.interview_id iv) (id' task) (code s)
              (InterviewState.language iv) = Inr x)"
    by (auto simp add: runTests_def Let_def split: sum.splits option.splits)
  show "interview s \<noteq> None \<and> currentTask s \<noteq> None \<longrightarrow> idle (snd (runTests api s))"
    by (auto simp add: runTests_def idle_def hook_defs Let_def split: sum.splits option.splits)
  show "interview s = None \<or> currentTask s = None \<longrightarrow>
         fst (runTests api s) = Inr None \<and>
         isLoading (snd (runTests api s)) = isLoading s \<and>
         loadingAction (snd (runTests api s)) = loadingAction s"
    by (auto simp add: runTests_def hook_defs Let_def split: sum.splits option.splits)
  show "idle s \<longrightarrow> idle (snd (runTests api s))"
    using idle_runTests by blast
  show "reachable s \<longrightarrow> idle (snd (runTests api s))"
    using reachable_idle idle_runTests by blast
qed

theorem runTests_never_throws_witness:
  "fst (runTests api_up s_ready) = Inr (Some exec_sample)
   \<and> idle (snd (runTests api_up s_ready))
   \<and> fst (runTests api_down s_ready) = Inr None
   \<and> idle (snd (runTests api_down s_ready))
   \<and> fst (runTests api_down useInterview_init) = Inr None
   \<and> reachable useInterview_init
   \<and> idle (snd (runTests api_down useInterview_init))"
proof -
  note u = runTests_never_throws [of api_up s_ready]
  note d = runTests_never_throws [of api_down s_ready]
  note i = runTests_never_throws [of api_down useInterview_init]
  have p: "interview s_ready \<noteq> None \<and> currentTask s_ready \<noteq> None"
    by (simp add: s_ready_def)
  have 1: "fst (runTests api_up s_ready) = Inr (Some exec_sample)"
    by (simp add: runTests_def s_ready_def api_up_def Let_def)
  have 2: "idle (snd (runTests api_up s_ready))"
    using u p by blast
  have "\<forall>x. fst (runTests api_down s_ready) \<noteq> Inr (Some x)"
    using d by (simp add: api_down_def)
  with d have 3: "fst (runTests api_down s_ready) = Inr None"
    by (metis option.exhaust)
  have 4: "idle (snd (runTests api_down s_ready))"
    using d p by blast
  have 5: "fst (runTests api_down useInterview_init) = Inr None"
    using i by (simp add: useInterview_init_def)
  have 6: "reachable useInterview_init"
    by (rule reachable.init)
  have 7: "idle (snd (runTests api_down useInterview_init))"
    using i 6 by blast
  from 1 2 3 4 5 6 7 show ?thesis by blast
qed

text \<open>
  C9 as stated fails on the path for a missing interview: that return lies outside the
  \<open>try\<close> with its \<open>finally\<close>. Called while \<open>startInterview\<close> awaits the
  server, \<open>runTests\<close> returns \<open>null\<close> and the hook is still loading afterwards.
\<close>

theorem runTests_loading_counterexample:
  "interview s_loading = None
   \<and> fst (runTests api_up s_loading) = Inr None
   \<and> isLoading (snd (runTests api_up s_loading))
   \<and> loadingAction (snd (runTests api_up s_loading)) = Some Start"
  by (simp add: s_loading_def runTests_def begin_loading_def console_error_def
      useInterview_init_def)

section \<open>The task counter\<close>
















section \<open>What a failed test run shows\<close>

lemma apiClient_runTests_not_ok:
  "fetch (runTests_request base iid tid src lang) = Resolved res \<Longrightarrow> \<not> ok res \<Longrightarrow>
   apiClient_runTests fetch base iid tid src lang = Inl (Error ''Failed to run tests'')"
  by (simp add: apiClient_runTests_def)

text \<open>
  C4. When the response of the test-run request is not ok, \<open>apiClient.runTests\<close> throws
  an error with the fixed message "Failed to run tests", whatever the status and the
  body of the response are; \<open>runTests\<close> of the hook then returns \<open>null\<close>, resets the
  loading state and writes that error to the console, and changes nothing else. The body
  of the response is not read.
\<close>

theorem runTests_generic_error:
  "(fetch (runTests_request base iid tid src lang) = Resolved res \<and> \<not> ok res \<longrightarrow>
      apiClient_runTests fetch base iid tid src lang = Inl (Error ''Failed to run tests''))
   \<and> (interview s = Some iv \<and> currentTask s = Some task \<and>
       fetch (runTests_request base (InterviewState.interview_id iv) (id' task) (code s)
                (InterviewState.language iv)) = Resolved res \<and> \<not> ok res \<longrightarrow>
      runTests (api\<lparr>runTests_api := apiClient_runTests fetch base\<rparr>) s
        = (Inr None,
           s\<lparr>isLoading := False, loadingAction := None,
             console := console s
               @ [ConsoleError ''Error running tests:'' (Some (Error ''Failed to run tests''))]\<rparr>))"
proof (intro conjI impI)
  assume "fetch (runTests_request base iid tid src lang) = Resolved res \<and> \<not> ok res"
  then show "apiClient_runTests fetch base iid tid src lang = Inl (Error ''Failed to run tests'')"
    by (simp add: apiClient_runTests_not_ok)
next
  assume a: "interview s = Some iv \<and> currentTask s = Some task \<and>
       fetch (runTests_request base (InterviewState.interview_id iv) (id' task) (code s)
                (InterviewState.language iv)) = Resolved res \<and> \<not> ok res"
  then have "apiClient_runTests fetch base (InterviewState.interview_id iv) (id' task) (code s)
               (InterviewState.language iv) = Inl (Error ''Failed to run tests'')"
    by (simp add: apiClient_runTests_not_ok)
  with a show "runTests (api\<lparr>runTests_api := apiClient_runTests fetch base\<rparr>) s
        = (Inr None,
           s\<lparr>isLoading := False, loadingAction := None,
             console := console s
               @ [ConsoleError ''Error running tests:'' (Some (Error ''Failed to run tests''))]\<rparr>)"
    by (simp add: runTests_def hook_defs Let_def)
qed

theorem runTests_generic_error_witness:
  "\<not> ok res_500
   \<and> apiClient_runTests fetch_500 DEFAULT_API_BASE ''iv-1'' ''task-1'' ''print(1)'' Python
       = Inl (Error ''Failed to run tests'')
   \<and> fst (runTests api_500 s_ready) = Inr None
   \<and> console (snd (runTests api_500 s_ready))
       = [ConsoleError ''Error running tests:'' (Some (Error ''Failed to run tests''))]"
proof -
  note a = runTests_generic_error [of fetch_500 DEFAULT_API_BASE "''iv-1''" "''task-1''"
      "''print(1)''" Python res_500 s_ready iv_sample task_sample api_up]
  have 1: "\<not> ok res_500"
    by (simp add: res_500_def)
  have 2: "apiClient_runTests fetch_500 DEFAULT_API_BASE ''iv-1'' ''task-1'' ''print(1)'' Python
       = Inl (Error ''Failed to run tests'')"
    using a 1 by (simp add: fetch_500_def)
  have r: "runTests api_500 s_ready
        = (Inr None,
           s_ready\<lparr>isLoading := False, loadingAction := None,
             console := console s_ready
               @ [ConsoleError ''Error running tests:'' (Some (Error ''Failed to run tests''))]\<rparr>)"
    using a 1 by (simp add: fetch_500_def api_500_def s_ready_def)
  have 3: "fst (runTests api_500 s_ready) = Inr None"
    by (simp add: r)
  have 4: "console (snd (runTests api_500 s_ready))
       = [ConsoleError ''Error running tests:'' (Some (Error ''Failed to run tests''))]"
    by (simp add: r) (simp add: s_ready_def useInterview_init_def)
  from 1 2 3 4 show ?thesis by blast
qed

section \<open>The test-run request\<close>

text \<open>
  C2, as amended. The body of every test-run request that the client sends has exactly the
  properties \<open>interview_id\<close>, \<open>task_id\<close>, \<open>code\<close> and \<open>language\<close>, in this
  order; it has no \<open>timeout_seconds\<close> and no \<open>memory_limit_mb\<close>. This request is the
  only one that \<open>apiClient.runTests\<close> issues: its result depends on \<open>fetch\<close> through
  the answer to this request alone.
\<close>

theorem runTests_request_fields:
  "json_keys (body (runTests_request base iid tid src lang))
     = [''interview_id'', ''task_id'', ''code'', ''language'']
   \<and> ''timeout_seconds'' \<notin> set (json_keys (body (runTests_request base iid tid src lang)))
   \<and> ''memory_limit_mb'' \<notin> set (json_keys (body (runTests_request base iid tid src lang)))
   \<and> body (runTests_request base iid tid src lang)
       = JObj [(''interview_id'', JStr iid), (''task_id'', JStr tid), (''code'', JStr src),
               (''language'', JStr (language_name lang))]
   \<and> (\<forall>fetch fetch'.
         fetch (runTests_request base iid tid src lang)
           = fetch' (runTests_request base iid tid src lang) \<longrightarrow>
         apiClient_runTests fetch base iid tid src lang
           = apiClient_runTests fetch' base iid tid src lang)"
proof (intro conjI allI impI)
  show "json_keys (body (runTests_request base iid tid src lang))
     = [''interview_id'', ''task_id'', ''code'', ''language'']"
    by (simp add: runTests_request_def)
  show "''timeout_seconds'' \<notin> set (json_keys (body (runTests_request base iid tid src lang)))"
    by (simp add: runTests_request_def)
  show "''memory_limit_mb'' \<notin> set (json_keys (body (runTests_request base iid tid src lang)))"
    by (simp add: runTests_request_def)
  show "body (runTests_request base iid tid src lang)
       = JObj [(''interview_id'', JStr iid), (''task_id'', JStr tid), (''code'', JStr src),
               (''language'', JStr (language_name lang))]"
    by (simp add: runTests_request_def)
next
  fix fetch fetch' :: "http_request \<Rightarrow> ExecutionResult fetch_outcome"
  assume eq: "fetch (runTests_request base iid tid src lang)
           = fetch' (runTests_request base iid tid src lang)"
  show "apiClient_runTests fetch base iid tid src lang
           = apiClient_runTests fetch' base iid tid src lang"
    by (simp only: apiClient_runTests_def eq)
qed

theorem runTests_request_fields_witness:
  "json_keys (body (runTests_request DEFAULT_API_BASE ''iv-1'' ''task-1'' ''print(1)'' Python))
     = [''interview_id'', ''task_id'', ''code'', ''language'']
   \<and> fetch_500 (runTests_request DEFAULT_API_BASE ''iv-1'' ''task-1'' ''print(1)'' Python)
       = fetch_run_tests_only
           (runTests_request DEFAULT_API_BASE ''iv-1'' ''task-1'' ''print(1)'' Python)
   \<and> apiClient_runTests fetch_500 DEFAULT_API_BASE ''iv-1'' ''task-1'' ''print(1)'' Python
       = apiClient_runTests fetch_run_tests_only DEFAULT_API_BASE ''iv-1'' ''task-1''
           ''print(1)'' Python"
proof -
  note t = runTests_request_fields [of DEFAULT_API_BASE "''iv-1''" "''task-1''" "''print(1)''" Python]
  have 1: "json_keys (body (runTests_request DEFAULT_API_BASE ''iv-1'' ''task-1'' ''print(1)'' Python))
     = [''interview_id'', ''task_id'', ''code'', ''language'']"
    using t by blast
  have 2: "fetch_500 (runTests_request DEFAULT_API_BASE ''iv-1'' ''task-1'' ''print(1)'' Python)
       = fetch_run_tests_only
           (runTests_request DEFAULT_API_BASE ''iv-1'' ''task-1'' ''print(1)'' Python)"
    by (simp add: fetch_500_def fetch_run_tests_only_def runTests_request_def)
  have 3: "apiClient_runTests fetch_500 DEFAULT_API_BASE ''iv-1'' ''task-1'' ''print(1)'' Python
       = apiClient_runTests fetch_run_tests_only DEFAULT_API_BASE ''iv-1'' ''task-1''
           ''print(1)'' Python"
    using t 2 by blast
  from 1 2 3 show ?thesis by blast
qed

text \<open>
  C2 as stated fails: the body of a test-run request has neither a \<open>timeout_seconds\<close>
  nor a \<open>memory_limit_mb\<close> property.
\<close>

theorem runTests_request_counterexample:
  "''timeout_seconds''
     \<notin> set (json_keys (body (runTests_request DEFAULT_API_BASE ''iv-1'' ''task-1'' ''print(1)'' Python)))
   \<and> ''memory_limit_mb''
     \<notin> set (json_keys (body (runTests_request DEFAULT_API_BASE ''iv-1'' ''task-1'' ''print(1)'' Python)))"
  by (simp add: runTests_request_def)

section \<open>The supported languages\<close>

lemma UNIV_ProgrammingLanguage: "(UNIV :: ProgrammingLanguage set) = {Python, Javascript, Cpp}"
  using ProgrammingLanguage.exhaust by auto

lemma range_language_name: "range language_name = {''python'', ''javascript'', ''cpp''}"
  by (auto simp add: UNIV_ProgrammingLanguage)

lemma getDefaultCode_nonempty_iff:
  "getDefaultCode s \<noteq> [] \<longleftrightarrow> s \<in> {''python'', ''javascript'', ''cpp''}"
  by (simp add: getDefaultCode_def)

lemma inj_language_name: "inj language_name"
proof (rule injI)
  fix x y assume "language_name x = language_name y"
  then show "x = y" by (cases x; cases y) simp_all
qed

lemma inj_getDefaultCode: "inj (\<lambda>l. getDefaultCode (language_name l))"
proof (rule injI)
  fix x y assume "getDefaultCode (language_name x) = getDefaultCode (language_name y)"
  then show "x = y" by (cases x; cases y) (simp_all add: getDefaultCode_def)
qed

lemma bij_spec_runner_kind: "bij spec_runner_kind"
proof (rule bijI)
  show "inj spec_runner_kind"
  proof (rule injI)
    fix x y assume "spec_runner_kind x = spec_runner_kind y"
    then show "x = y" by (cases x; cases y) simp_all
  qed
  show "surj spec_runner_kind"
  proof (rule surjI)
    fix k show "spec_runner_kind (case k of InterpretedRunner \<Rightarrow> Python | VMRunner \<Rightarrow> Javascript
                  | CompiledRunner \<Rightarrow> Cpp) = k"
      by (cases k) simp_all
  qed
qed

text \<open>
  C7. The type of the language values has exactly three members, \<open>python\<close>,
  \<open>javascript\<close> and \<open>cpp\<close>, one for each kind of runner of the specification
  (interpreted, VM-based, compiled). The operations that branch on the language handle
  exactly these three: \<open>getDefaultCode\<close> gives a non-empty starter code for these
  strings and for no other, a different one for each language; \<open>languageMap\<close> and the
  file extension are defined for each of the three.
\<close>

theorem languages_closed_set:
  "(UNIV :: ProgrammingLanguage set) = {Python, Javascript, Cpp}
   \<and> card (UNIV :: ProgrammingLanguage set) = 3
   \<and> range language_name = {''python'', ''javascript'', ''cpp''}
   \<and> inj language_name
   \<and> bij spec_runner_kind
   \<and> (\<forall>s. getDefaultCode s \<noteq> [] \<longleftrightarrow> s \<in> range language_name)
   \<and> inj (\<lambda>l. getDefaultCode (language_name l))
   \<and> (\<forall>l. languageMap l = language_name l)
   \<and> (\<forall>l. file_extension (language_name l)
            = (case l of Python \<Rightarrow> ''py'' | Javascript \<Rightarrow> ''js'' | Cpp \<Rightarrow> ''cpp''))"
proof (intro conjI)
  show "(UNIV :: ProgrammingLanguage set) = {Python, Javascript, Cpp}"
    by (rule UNIV_ProgrammingLanguage)
  show "card (UNIV :: ProgrammingLanguage set) = 3"
    by (simp add: UNIV_ProgrammingLanguage)
  show "range language_name = {''python'', ''javascript'', ''cpp''}"
    by (rule range_language_name)
  show "inj language_name" by (rule inj_language_name)
  show "bij spec_runner_kind" by (rule bij_spec_runner_kind)
  show "\<forall>s. getDefaultCode s \<noteq> [] \<longleftrightarrow> s \<in> range language_name"
    by (simp only: range_language_name getDefaultCode_nonempty_iff) simp
  show "inj (\<lambda>l. getDefaultCode (language_name l))" by (rule inj_getDefaultCode)
  show "\<forall>l. languageMap l = language_name l"
  proof
    fix l show "languageMap l = language_name l" by (cases l) simp_all
  qed
  show "\<forall>l. file_extension (language_name l)
            = (case l of Python \<Rightarrow> ''py'' | Javascript \<Rightarrow> ''js'' | Cpp \<Rightarrow> ''cpp'')"
  proof
    fix l show "file_extension (language_name l)
            = (case l of Python \<Rightarrow> ''py'' | Javascript \<Rightarrow> ''js'' | Cpp \<Rightarrow> ''cpp'')"
      by (cases l) (simp_all add: file_extension_def)
  qed
qed

theorem languages_closed_set_witness:
  "getDefaultCode ''python'' \<noteq> []
   \<and> getDefaultCode ''cpp'' \<noteq> []
   \<and> getDefaultCode ''ruby'' = []
   \<and> getDefaultCode (language_name Python) \<noteq> getDefaultCode (language_name Javascript)
   \<and> file_extension (language_name Javascript) = ''js''"
proof -
  note t = languages_closed_set
  have r: "range language_name = {''python'', ''javascript'', ''cpp''}"
    using t by blast
  have g: "\<forall>s. getDefaultCode s \<noteq> [] \<longleftrightarrow> s \<in> {''python'', ''javascript'', ''cpp''}"
    using t r by simp
  have 1: "getDefaultCode ''python'' \<noteq> []"
    using g by simp
  have 2: "getDefaultCode ''cpp'' \<noteq> []"
    using g by simp
  have "\<not> getDefaultCode ''ruby'' \<noteq> []"
    by (simp only: g) simp
  then have 3: "getDefaultCode ''ruby'' = []"
    by simp
  have i: "inj (\<lambda>l. getDefaultCode (language_name l))"
    using t by blast
  have 4: "getDefaultCode (language_name Python) \<noteq> getDefaultCode (language_name Javascript)"
  proof
    assume "getDefaultCode (language_name Python) = getDefaultCode (language_name Javascript)"
    with i have "Python = Javascript"
      by (rule injD)
    then show False by simp
  qed
  have e: "\<forall>l. file_extension (language_name l)
            = (case l of Python \<Rightarrow> ''py'' | Javascript \<Rightarrow> ''js'' | Cpp \<Rightarrow> ''cpp'')"
    using t by blast
  have 5: "file_extension (language_name Javascript) = ''js''"
    using e [THEN spec, of Javascript] by simp
  from 1 2 3 4 5 show ?thesis by blast
qed

section \<open>The shape of the test-run result\<close>

lemma json_keys_TestResult:
  "json_keys (TestResult_json t) =
     [''test_number'', ''passed'', ''input'', ''expected'', ''actual'']
     @ (if TestResult.error t = None then [] else [''error'']) @ [''execution_time_ms'']"
  by (simp add: TestResult_json_def split: option.splits)

lemma json_keys_ExecutionResult:
  "json_keys (ExecutionResult_json r) =
     (if success r = None then [] else [''success''])
     @ (if ExecutionResult.output' r = None then [] else [''output''])
     @ (if ExecutionResult.error r = None then [] else [''error''])
     @ [''execution_time_ms'', ''memory_used_mb'']
     @ (if test_results r = None then [] else [''test_results''])"
  by (simp add: ExecutionResult_json_def split: option.splits)

lemma json_get_None_iff: "json_get (JObj kvs) k = None \<longleftrightarrow> k \<notin> set (map fst kvs)"
  by (simp add: map_of_eq_None_iff)

lemma json_get_ExecutionResult_None:
  "k \<notin> {''success'', ''output'', ''error'', ''execution_time_ms'', ''memory_used_mb'',
         ''test_results''} \<Longrightarrow>
   json_get (ExecutionResult_json r) k = None"
proof -
  assume k: "k \<notin> {''success'', ''output'', ''error'', ''execution_time_ms'', ''memory_used_mb'',
         ''test_results''}"
  have "k \<notin> set (json_keys (ExecutionResult_json r))"
    using k by (auto simp add: json_keys_ExecutionResult split: if_splits)
  then show ?thesis
    by (simp add: ExecutionResult_json_def map_of_eq_None_iff)
qed

lemma json_get_test_results:
  "json_get (ExecutionResult_json r) ''test_results'' =
     map_option (\<lambda>ts. JArr (map TestResult_json ts)) (test_results r)"
  by (simp add: ExecutionResult_json_def map_of_append split: option.splits)

lemma not_spec_visible_hidden_split: "\<not> spec_visible_hidden_split (ExecutionResult_json r)"
  by (cases "test_results r")
     (simp_all add: spec_visible_hidden_split_def json_get_ExecutionResult_None
        json_get_test_results)

lemma not_spec_summary_of_counts: "\<not> spec_summary_of_counts (ExecutionResult_json r)"
  by (simp add: spec_summary_of_counts_def json_get_ExecutionResult_None)

text \<open>
  C3, as amended. The value that the test-run operation returns is the body of the
  response read as an \<open>ExecutionResult\<close>: an object with no other properties than
  \<open>success\<close>, \<open>output\<close>, \<open>error\<close>, \<open>execution_time_ms\<close>, \<open>memory_used_mb\<close> and
  \<open>test_results\<close>. Its test results are one list of per-case results, each with
  \<open>test_number\<close>, \<open>passed\<close>, \<open>input\<close>, \<open>expected\<close>, \<open>actual\<close>, an optional
  \<open>error\<close> and \<open>execution_time_ms\<close>. It has no separation into a visible and a
  hidden part and no summary of counts.
\<close>

theorem ExecutionResult_flat:
  "json_keys (ExecutionResult_json r)
     = (if success r = None then [] else [''success''])
       @ (if ExecutionResult.output' r = None then [] else [''output''])
       @ (if ExecutionResult.error r = None then [] else [''error''])
       @ [''execution_time_ms'', ''memory_used_mb'']
       @ (if test_results r = None then [] else [''test_results''])
   \<and> json_get (ExecutionResult_json r) ''test_results''
       = map_option (\<lambda>ts. JArr (map TestResult_json ts)) (test_results r)
   \<and> json_keys (TestResult_json t)
       = [''test_number'', ''passed'', ''input'', ''expected'', ''actual'']
         @ (if TestResult.error t = None then [] else [''error'']) @ [''execution_time_ms'']
   \<and> \<not> spec_visible_hidden_split (ExecutionResult_json r)
   \<and> \<not> spec_summary_of_counts (ExecutionResult_json r)
   \<and> (fetch (runTests_request base iid tid src lang) = Resolved res \<and> ok res \<longrightarrow>
        apiClient_runTests fetch base iid tid src lang = body_json res)"
proof (intro conjI)
  show "json_keys (ExecutionResult_json r)
     = (if success r = None then [] else [''success''])
       @ (if ExecutionResult.output' r = None then [] else [''output''])
       @ (if ExecutionResult.error r = None then [] else [''error''])
       @ [''execution_time_ms'', ''memory_used_mb'']
       @ (if test_results r = None then [] else [''test_results''])"
    by (rule json_keys_ExecutionResult)
  show "json_get (ExecutionResult_json r) ''test_results''
       = map_option (\<lambda>ts. JArr (map TestResult_json ts)) (test_results r)"
    by (rule json_get_test_results)
  show "json_keys (TestResult_json t)
       = [''test_number'', ''passed'', ''input'', ''expected'', ''actual'']
         @ (if TestResult.error t = None then [] else [''error'']) @ [''execution_time_ms'']"
    by (rule json_keys_TestResult)
  show "\<not> spec_visible_hidden_split (ExecutionResult_json r)"
    by (rule not_spec_visible_hidden_split)
  show "\<not> spec_summary_of_counts (ExecutionResult_json r)"
    by (rule not_spec_summary_of_counts)
  show "fetch (runTests_request base iid tid src lang) = Resolved res \<and> ok res \<longrightarrow>
        apiClient_runTests fetch base iid tid src lang = body_json res"
    by (simp add: apiClient_runTests_def)
qed

theorem ExecutionResult_flat_witness:
  "ok res_200
   \<and> apiClient_runTests fetch_200 DEFAULT_API_BASE ''iv-1'' ''task-1'' ''print(1)'' Python
       = Inr exec_sample
   \<and> json_keys (ExecutionResult_json exec_sample)
       = [''success'', ''execution_time_ms'', ''memory_used_mb'', ''test_results'']
   \<and> json_get (ExecutionResult_json exec_sample) ''test_results''
       = Some (JArr [TestResult_json t_pass, TestResult_json t_fail])"
proof -
  note t = ExecutionResult_flat [of exec_sample t_pass fetch_200 DEFAULT_API_BASE "''iv-1''"
      "''task-1''" "''print(1)''" Python res_200]
  have 1: "ok res_200"
    by (simp add: res_200_def)
  have 2: "apiClient_runTests fetch_200 DEFAULT_API_BASE ''iv-1'' ''task-1'' ''print(1)'' Python
       = Inr exec_sample"
    using t 1 by (simp add: fetch_200_def) (simp add: res_200_def)
  have 3: "json_keys (ExecutionResult_json exec_sample)
       = [''success'', ''execution_time_ms'', ''memory_used_mb'', ''test_results'']"
    by (simp add: ExecutionResult_json_def exec_sample_def)
  have 4: "json_get (ExecutionResult_json exec_sample) ''test_results''
       = Some (JArr [TestResult_json t_pass, TestResult_json t_fail])"
    using t by (simp add: exec_sample_def)
  from 1 2 3 4 show ?thesis by blast
qed

text \<open>
  C3 as stated fails: a value returned by the test-run operation, here a result with one
  passed and one failed test case, has neither a visible/hidden split nor a summary of
  counts.
\<close>

theorem ExecutionResult_flat_counterexample:
  "\<not> spec_visible_hidden_split (ExecutionResult_json exec_sample)
   \<and> \<not> spec_summary_of_counts (ExecutionResult_json exec_sample)"
  by (simp add: not_spec_visible_hidden_split not_spec_summary_of_counts)

section \<open>Stopping a test run\<close>

text \<open>
  C6, as amended. The client has no operation that cancels a test run in flight. The
  request is sent without an abort signal, so the caller of \<open>fetch\<close> cannot abort it,
  and no button of the editor takes a run out of flight. The stop button of the editor
  only clears \<open>isRunning\<close>: the run stays in flight, and
  when it settles the editor is in the state it would be in had the button not been
  pressed, so its result is still shown. The stop button of \<open>TestTerminal\<close> exists only
  while \<open>isRunning\<close> holds and an \<open>onStop\<close> handler was given.
\<close>

theorem test_run_not_cancellable:
  "signal (runTests_request base iid tid src lang) = None
   \<and> (\<forall>a loading. \<not> cancels_run (editor_act loading a) e)
   \<and> in_flight (stop_click e) = in_flight e
   \<and> handleRunTests_settled outcome (stop_click e) = handleRunTests_settled outcome e
   \<and> (TestTerminal_stop_button running onStop \<longleftrightarrow> running \<and> onStop \<noteq> None)"
proof (intro conjI allI)
  show "signal (runTests_request base iid tid src lang) = None"
    by (simp add: runTests_request_def)
  show "\<not> cancels_run (editor_act loading a) e" for a loading
    by (cases a) (simp_all add: cancels_run_def stop_click_def handleRunTests_begin_def)
  show "in_flight (stop_click e) = in_flight e"
    by (simp add: stop_click_def)
  show "handleRunTests_settled outcome (stop_click e) = handleRunTests_settled outcome e"
    by (simp add: stop_click_def handleRunTests_settled_def Let_def
        split: sum.splits option.splits)
  show "TestTerminal_stop_button running onStop \<longleftrightarrow> running \<and> onStop \<noteq> None"
    by (simp add: TestTerminal_stop_button_def)
qed

theorem test_run_not_cancellable_witness:
  "in_flight (handleRunTests_begin editor_init) = 1
   \<and> in_flight (stop_click (handleRunTests_begin editor_init)) = 1
   \<and> localTestResults
        (handleRunTests_settled (Inr (Some exec_sample))
           (stop_click (handleRunTests_begin editor_init))) = Some exec_sample
   \<and> \<not> TestTerminal_stop_button True (None :: unit option)"
proof -
  note t = test_run_not_cancellable [of DEFAULT_API_BASE "''iv-1''" "''task-1''" "''print(1)''"
      Python "handleRunTests_begin editor_init" "Inr (Some exec_sample)" True "None :: unit option"]
  have 1: "in_flight (handleRunTests_begin editor_init) = 1"
    by (simp add: handleRunTests_begin_def editor_init_def)
  have 2: "in_flight (stop_click (handleRunTests_begin editor_init)) = 1"
    using t 1 by simp
  have "localTestResults
          (handleRunTests_settled (Inr (Some exec_sample)) (handleRunTests_begin editor_init))
        = Some exec_sample"
    by (simp add: handleRunTests_settled_def)
  with t have 3: "localTestResults
        (handleRunTests_settled (Inr (Some exec_sample))
           (stop_click (handleRunTests_begin editor_init))) = Some exec_sample"
    by simp
  have 4: "\<not> TestTerminal_stop_button True (None :: unit option)"
    using t by simp
  from 1 2 3 4 show ?thesis by blast
qed

text \<open>
  C6 as stated fails on the client: with a test run in flight, the request has no abort
  signal and pressing stop does not cancel the run, whose result is still delivered when
  it settles.
\<close>

theorem test_run_cancel_counterexample:
  "in_flight (handleRunTests_begin editor_init) = 1
   \<and> signal (runTests_request DEFAULT_API_BASE ''iv-1'' ''task-1'' ''print(1)'' Python) = None
   \<and> \<not> cancels_run (editor_act True StopClick) (handleRunTests_begin editor_init)
   \<and> \<not> cancels_run (editor_act True RunTestsClick) (handleRunTests_begin editor_init)
   \<and> localTestResults
        (handleRunTests_settled (Inr (Some exec_sample))
           (stop_click (handleRunTests_begin editor_init))) = Some exec_sample"
  by (simp add: handleRunTests_begin_def editor_init_def runTests_request_def cancels_run_def
      stop_click_def handleRunTests_settled_def)

section \<open>Hidden test cases in the outward response\<close>

lemma hidden_entries_outward:
  "hidden_entries (outward_response execution visible hidden) = map expose_hidden hidden"
  by (simp add: hidden_entries_def outward_response_def)

lemma expose_hidden_fields:
  "json_keys (expose_hidden r) = [''id'', ''status'', ''execution_time_ms'']"
  "json_get (expose_hidden r) ''id'' = Some (JStr (test_id r))"
  "json_get (expose_hidden r) ''status'' = Some (JStr (case_status r))"
  "json_get (expose_hidden r) ''execution_time_ms'' = Some (JNum (of_int (duration_ms r)))"
  "json_get (expose_hidden r) ''input'' = None"
  "json_get (expose_hidden r) ''expected_output'' = None"
  "json_get (expose_hidden r) ''actual_output'' = None"
  by (simp_all add: expose_hidden_def)

text \<open>
  C1. In the response that the test runner exposes, the entries of the hidden test cases
  are those of the internal results, in order, and each carries the identifier, the
  pass/fail status and the execution time of its test case and nothing else: it has no
  \<open>input\<close>, no \<open>expected_output\<close> and no \<open>actual_output\<close> property, whatever the
  internal result holds.
\<close>

theorem hidden_results_redacted:
  "hidden_entries (outward_response execution visible hidden) = map expose_hidden hidden
   \<and> (\<forall>h \<in> set (hidden_entries (outward_response execution visible hidden)).
         json_keys h = [''id'', ''status'', ''execution_time_ms'']
         \<and> json_get h ''input'' = None
         \<and> json_get h ''expected_output'' = None
         \<and> json_get h ''actual_output'' = None)
   \<and> (\<forall>r \<in> set hidden.
         json_get (expose_hidden r) ''id'' = Some (JStr (test_id r))
         \<and> json_get (expose_hidden r) ''status''
             = Some (JStr (if TestCaseResult.passed r then ''passed'' else ''failed''))
         \<and> json_get (expose_hidden r) ''execution_time_ms''
             = Some (JNum (of_int (duration_ms r))))"
proof (intro conjI ballI)
  show "hidden_entries (outward_response execution visible hidden) = map expose_hidden hidden"
    by (rule hidden_entries_outward)
next
  fix h assume "h \<in> set (hidden_entries (outward_response execution visible hidden))"
  then obtain r where h: "h = expose_hidden r"
    by (auto simp add: hidden_entries_outward)
  show "json_keys h = [''id'', ''status'', ''execution_time_ms'']"
    and "json_get h ''input'' = None"
    and "json_get h ''expected_output'' = None"
    and "json_get h ''actual_output'' = None"
    by (simp_all add: h expose_hidden_fields)
next
  fix r assume "r \<in> set hidden"
  show "json_get (expose_hidden r) ''id'' = Some (JStr (test_id r))"
    and "json_get (expose_hidden r) ''status''
             = Some (JStr (if TestCaseResult.passed r then ''passed'' else ''failed''))"
    and "json_get (expose_hidden r) ''execution_time_ms''
             = Some (JNum (of_int (duration_ms r)))"
    by (simp_all add: expose_hidden_fields case_status_def)
qed

theorem hidden_results_redacted_witness:
  "json_get (outward_response JNull visible_example hidden_example) ''summary''
     = Some (JObj [(''visible_passed'', JNum 5), (''visible_failed'', JNum 0),
                   (''hidden_passed'', JNum 3), (''hidden_failed'', JNum 2)])
   \<and> length (hidden_entries (outward_response JNull visible_example hidden_example)) = 5
   \<and> expose_hidden (case_result ''hidden_2'' False)
       \<in> set (hidden_entries (outward_response JNull visible_example hidden_example))
   \<and> json_keys (expose_hidden (case_result ''hidden_2'' False))
       = [''id'', ''status'', ''execution_time_ms'']
   \<and> json_get (expose_hidden (case_result ''hidden_2'' False)) ''expected_output'' = None
   \<and> json_get (expose_hidden (case_result ''hidden_2'' False)) ''actual_output'' = None
   \<and> json_get (expose_hidden (case_result ''hidden_2'' False)) ''status''
       = Some (JStr ''failed'')"
proof -
  note t = hidden_results_redacted [of JNull visible_example hidden_example]
  have 1: "json_get (outward_response JNull visible_example hidden_example) ''summary''
     = Some (JObj [(''visible_passed'', JNum 5), (''visible_failed'', JNum 0),
                   (''hidden_passed'', JNum 3), (''hidden_failed'', JNum 2)])"
    by (simp add: outward_response_def summary_def visible_example_def hidden_example_def
        case_result_def)
  have e: "hidden_entries (outward_response JNull visible_example hidden_example)
             = map expose_hidden hidden_example"
    using t by blast
  have 2: "length (hidden_entries (outward_response JNull visible_example hidden_example)) = 5"
    by (simp add: e) (simp add: hidden_example_def)
  have m: "case_result ''hidden_2'' False \<in> set hidden_example"
    by (simp add: hidden_example_def)
  then have 3: "expose_hidden (case_result ''hidden_2'' False)
       \<in> set (hidden_entries (outward_response JNull visible_example hidden_example))"
    by (simp add: e)
  from t 3 have 4: "json_keys (expose_hidden (case_result ''hidden_2'' False))
       = [''id'', ''status'', ''execution_time_ms'']"
    and 5: "json_get (expose_hidden (case_result ''hidden_2'' False)) ''expected_output'' = None"
    and 6: "json_get (expose_hidden (case_result ''hidden_2'' False)) ''actual_output'' = None"
    by blast+
  from t m have "json_get (expose_hidden (case_result ''hidden_2'' False)) ''status''
       = Some (JStr (if TestCaseResult.passed (case_result ''hidden_2'' False)
                     then ''passed'' else ''failed''))"
    by blast
  then have 7: "json_get (expose_hidden (case_result ''hidden_2'' False)) ''status''
       = Some (JStr ''failed'')"
    by (simp add: case_result_def)
  from 1 2 3 4 5 6 7 show ?thesis by blast
qed

end
